theory Spec2Isabelle
  imports Complex_Main
begin

section \<open>Python values, failures and the numeric libraries\<close>

text \<open>
  The calculators are Python methods over floats that return dictionaries keyed by
  strings. Floats are modelled as exact reals, and infinities and NaN are outside the
  model except where numpy's division produces them. Rounding enters where a property
  compares two numbers that the code computes apart: the variances of
  \<open>DescriptiveStats\<close> are computed on doubles, and the library of distribution functions
  is a parameter, which may return rounded values. Each exception the source can raise is
  a value of \<open>error\<close>, and a call returns \<open>error + result\<close> with \<open>Inl\<close> for the raised
  exception.
\<close>

datatype error =
    ValueError string
  | ZeroDivisionError
  | OverflowError
  | NameError string
  | UnboundLocalError string

text \<open>
  A numpy scalar. Unlike Python's own float division, numpy's division by zero does not
  raise: it yields an infinity, or NaN for 0/0. Only the places where the source divides
  numpy scalars use this type.
\<close>

datatype npfloat = Finite real | PosInf | NegInf | NaN

text \<open>
  A dictionary value. \<open>PyFmt\<close> stands for a formatted string (an f-string, or a literal
  with characters outside ASCII): it keeps the interpolated values in order and drops
  the rendered text. \<open>PyObject\<close> is an opaque module or class object.
\<close>

datatype pyval =
    PyNone
  | PyBool bool
  | PyInt int
  | PyFloat real
  | PyStr string
  | PyList "pyval list"
  | PyFmt "pyval list"
  | PyDict "(string \<times> pyval) list"
  | PyNonFinite npfloat
  | PyObject string

type_synonym pydict = "(string \<times> pyval) list"

text \<open>
  \<open>scipy.stats\<close> is not part of the repository. Its four functions the calculators call
  are parameters of the model: \<open>norm_cdf\<close> is \<open>stats.norm.cdf\<close>, \<open>norm_ppf\<close> is
  \<open>stats.norm.ppf\<close>, \<open>t_cdf x df\<close> is \<open>stats.t.cdf(x, df)\<close> and \<open>t_ppf q df\<close> is
  \<open>stats.t.ppf(q, df)\<close>.
\<close>

record stats_lib =
  norm_cdf :: "real \<Rightarrow> real"
  norm_ppf :: "real \<Rightarrow> real"
  t_cdf :: "real \<Rightarrow> real \<Rightarrow> real"
  t_ppf :: "real \<Rightarrow> real \<Rightarrow> real"

text \<open>Float division \<open>a / b\<close> of two Python floats raises on a zero divisor.\<close>

definition truediv :: "real \<Rightarrow> real \<Rightarrow> error + real" where
  "truediv a b = (if b = 0 then Inl ZeroDivisionError else Inr (a / b))"

text \<open>\<open>math.sqrt\<close> raises on a negative argument.\<close>

definition math_sqrt :: "real \<Rightarrow> error + real" where
  "math_sqrt x = (if x < 0 then Inl (ValueError ''math domain error'') else Inr (sqrt x))"

text \<open>Division of numpy scalars, and the conversions around it.\<close>

definition np_truediv :: "real \<Rightarrow> real \<Rightarrow> npfloat" where
  "np_truediv a b =
     (if b = 0 then (if a = 0 then NaN else if 0 < a then PosInf else NegInf)
      else Finite (a / b))"

fun np_sqrt :: "npfloat \<Rightarrow> npfloat" where
  "np_sqrt (Finite x) = (if x < 0 then NaN else Finite (sqrt x))"
| "np_sqrt PosInf = PosInf"
| "np_sqrt NegInf = NaN"
| "np_sqrt NaN = NaN"

fun py_of_npfloat :: "npfloat \<Rightarrow> pyval" where
  "py_of_npfloat (Finite x) = PyFloat x"
| "py_of_npfloat v = PyNonFinite v"

text \<open>\<open>math.ceil\<close> returns an int; it raises on an infinity and on NaN.\<close>

fun math_ceil :: "npfloat \<Rightarrow> error + int" where
  "math_ceil (Finite x) = Inr \<lceil>x\<rceil>"
| "math_ceil NaN = Inl (ValueError ''cannot convert float NaN to integer'')"
| "math_ceil v = Inl OverflowError"

text \<open>The number a dictionary value holds, when it is one.\<close>

fun num_of :: "pyval \<Rightarrow> real option" where
  "num_of (PyFloat x) = Some x"
| "num_of (PyInt i) = Some (real_of_int i)"
| "num_of v = None"

subsection \<open>Doubles\<close>

text \<open>
  A double holds a number with 53 significant binary digits. \<open>float64 x\<close> is the double
  nearest to the real \<open>x\<close>, which is what IEEE 754 arithmetic returns for an operation
  whose exact result is \<open>x\<close>: \<open>x\<close> is divided by the unit in the last place of its
  binade, rounded to an integer with a tie going to the even one, and multiplied back.
  The exponent is not bounded here: overflow to an infinity and the coarser spacing of
  the subnormal numbers are outside the model.
\<close>

definition round_half_even :: "real \<Rightarrow> int" where
  "round_half_even x =
     (let f = \<lfloor>x\<rfloor>;
          r = x - of_int f
      in if r < 1 / 2 then f else if 1 / 2 < r then f + 1 else if even f then f else f + 1)"

definition float64 :: "real \<Rightarrow> real" where
  "float64 x =
     (if x = 0 then 0
      else (let ulp = 2 powr (of_int \<lfloor>log 2 \<bar>x\<bar>\<rfloor> - 52)
            in of_int (round_half_even (x / ulp)) * ulp))"

text \<open>Division and square roots of numpy doubles: as above, and rounded.\<close>

definition float64_truediv :: "real \<Rightarrow> real \<Rightarrow> npfloat" where
  "float64_truediv a b =
     (if b = 0 then (if a = 0 then NaN else if 0 < a then PosInf else NegInf)
      else Finite (float64 (a / b)))"

fun float64_sqrt :: "npfloat \<Rightarrow> npfloat" where
  "float64_sqrt (Finite x) = (if x < 0 then NaN else Finite (float64 (sqrt x)))"
| "float64_sqrt PosInf = PosInf"
| "float64_sqrt NegInf = NaN"
| "float64_sqrt NaN = NaN"

section \<open>NormalDistribution (classes/hypothesis_testing.py)\<close>

record NormalDistribution =
  mean :: real
  std_dev :: real

text \<open>\<open>__init__\<close> stores both arguments; it has no check and no raise.\<close>

definition NormalDistribution_init :: "real \<Rightarrow> real \<Rightarrow> error + NormalDistribution" where
  "NormalDistribution_init mu sigma = Inr \<lparr>mean = mu, std_dev = sigma\<rparr>"

text \<open>\<open>comparison.replace("_", " ")\<close> in the description.\<close>

definition replace_underscore :: "string \<Rightarrow> string" where
  "replace_underscore s = map (\<lambda>c. if c = CHR ''_'' then CHR '' '' else c) s"

text \<open>
  \<open>calculate_probability\<close>: the z-score, then a three-way branch on the comparison
  string whose last arm takes every other string. The \<open>steps\<close> entry, a list of
  formatted strings over the names bound here, is left out of the result.
\<close>

definition calculate_probability ::
  "stats_lib \<Rightarrow> NormalDistribution \<Rightarrow> real \<Rightarrow> string \<Rightarrow> error + pydict" where
  "calculate_probability lib self x_value comparison =
     (case truediv (x_value - mean self) (std_dev self) of
        Inl e \<Rightarrow> Inl e
      | Inr z_score \<Rightarrow>
          (let probability =
                 (if comparison = ''less_than'' then norm_cdf lib z_score
                  else if comparison = ''greater_than'' then 1 - norm_cdf lib z_score
                  else norm_cdf lib z_score)
           in Inr [(''probability'', PyFloat probability),
                   (''z_score'', PyFloat z_score),
                   (''formula'', PyFmt []),
                   (''description'', PyFmt [PyStr (replace_underscore comparison), PyFloat x_value]),
                   (''percentage'', PyFloat (probability * 100))]))"

text \<open>\<open>calculate_z_score\<close>, reduced to its numeric entry.\<close>

definition calculate_z_score :: "NormalDistribution \<Rightarrow> real \<Rightarrow> error + pydict" where
  "calculate_z_score self x_value =
     (case truediv (x_value - mean self) (std_dev self) of
        Inl e \<Rightarrow> Inl e
      | Inr z_score \<Rightarrow> Inr [(''z_score'', PyFloat z_score), (''formula'', PyFmt [])])"

text \<open>
  The web route's way to an instance (api/routes/stats_routes.py,
  \<open>normal_distribution_calculations\<close>): both parameters must be present, the standard
  deviation must be positive, and only then is the constructor called. A refusal is the
  error message with the HTTP status.
\<close>

definition normal_distribution_calculations_construct ::
  "real option \<Rightarrow> real option \<Rightarrow> (string \<times> nat) + (error + NormalDistribution)" where
  "normal_distribution_calculations_construct mean_param std_dev_param =
     (case (mean_param, std_dev_param) of
        (Some mu, Some sigma) \<Rightarrow>
          if sigma \<le> 0 then Inl (''Standard deviation must be positive'', 400)
          else Inr (NormalDistribution_init mu sigma)
      | _ \<Rightarrow> Inl (''Mean and standard deviation are required'', 400))"

section \<open>ConfidenceIntervals (api/statistics/confidence_intervals.py)\<close>

text \<open>
  The part of \<open>mean_confidence_interval\<close> after its branch (lines 88 to 109): margin,
  bounds and the result dictionary. The \<open>steps\<close> entry is left out here and in every
  result below: it is a list of formatted strings over names that are bound where it is
  built.
\<close>

definition mean_confidence_interval_result ::
  "real \<Rightarrow> real \<Rightarrow> real \<Rightarrow> real \<Rightarrow> string \<Rightarrow> pyval \<Rightarrow> pydict" where
  "mean_confidence_interval_result sample_mean confidence_level critical_value std_error
       distribution_type df =
     (let margin_error = critical_value * std_error;
          lower_bound = sample_mean - margin_error;
          upper_bound = sample_mean + margin_error
      in [(''confidence_interval'', PyList [PyFloat lower_bound, PyFloat upper_bound]),
          (''lower_bound'', PyFloat lower_bound),
          (''upper_bound'', PyFloat upper_bound),
          (''margin_of_error'', PyFloat margin_error),
          (''critical_value'', PyFloat critical_value),
          (''standard_error'', PyFloat std_error),
          (''distribution_type'', PyStr distribution_type),
          (''degrees_of_freedom'', df),
          (''confidence_level'', PyFloat confidence_level),
          (''formula'', if distribution_type = ''z'' then PyFmt [PyStr distribution_type]
                        else PyFmt []),
          (''interpretation'',
             PyFmt [PyFloat (confidence_level * 100), PyFloat lower_bound, PyFloat upper_bound]),
          (''description'', PyFmt [PyFloat (confidence_level * 100)])])"

text \<open>
  \<open>mean_confidence_interval\<close>: the z-distribution when \<open>population_std\<close> is not None,
  whatever \<open>sample_std\<close> is; otherwise the t-distribution with \<open>sample_std\<close>, and a
  ValueError when that is None too. \<open>math.sqrt(sample_size)\<close> raises on a negative
  size and the division raises on size zero.
\<close>

definition mean_confidence_interval ::
  "stats_lib \<Rightarrow> real \<Rightarrow> int \<Rightarrow> real \<Rightarrow> real option \<Rightarrow> real option \<Rightarrow> error + pydict" where
  "mean_confidence_interval lib sample_mean sample_size confidence_level population_std sample_std =
     (let alpha = 1 - confidence_level;
          alpha_half = alpha / 2
      in case population_std of
           Some sigma \<Rightarrow>
             (let critical_value = norm_ppf lib (1 - alpha_half)
              in case math_sqrt (real_of_int sample_size) of
                   Inl e \<Rightarrow> Inl e
                 | Inr rt \<Rightarrow>
                     (case truediv sigma rt of
                        Inl e \<Rightarrow> Inl e
                      | Inr std_error \<Rightarrow>
                          Inr (mean_confidence_interval_result sample_mean confidence_level
                                 critical_value std_error ''z'' PyNone)))
         | None \<Rightarrow>
             (case sample_std of
                None \<Rightarrow> Inl (ValueError ''Either population_std or sample_std must be provided'')
              | Some s \<Rightarrow>
                  (let df = sample_size - 1;
                       critical_value = t_ppf lib (1 - alpha_half) (real_of_int df)
                   in case math_sqrt (real_of_int sample_size) of
                        Inl e \<Rightarrow> Inl e
                      | Inr rt \<Rightarrow>
                          (case truediv s rt of
                             Inl e \<Rightarrow> Inl e
                           | Inr std_error \<Rightarrow>
                               Inr (mean_confidence_interval_result sample_mean confidence_level
                                      critical_value std_error ''t'' (PyInt df))))))"

text \<open>
  Python's \<open>max(0, x)\<close> and \<open>min(1, x)\<close> return the int when \<open>x\<close> does not beat it.
\<close>

definition max_0 :: "real \<Rightarrow> pyval" where
  "max_0 x = (if 0 < x then PyFloat x else PyInt 0)"

definition min_1 :: "real \<Rightarrow> pyval" where
  "min_1 x = (if x < 1 then PyFloat x else PyInt 1)"

text \<open>The product \<open>bound * 100\<close> of such a bound: an int stays an int.\<close>

fun times_100 :: "pyval \<Rightarrow> pyval" where
  "times_100 (PyFloat x) = PyFloat (x * 100)"
| "times_100 (PyInt i) = PyInt (i * 100)"
| "times_100 v = v"

text \<open>
  \<open>proportion_confidence_interval\<close>: the warning, the z critical value, the standard
  error from the sample proportion, and the two bounds clamped by \<open>max(0, .)\<close> and
  \<open>min(1, .)\<close>. The division by the sample size raises on zero, and \<open>math.sqrt\<close> on a
  negative ratio.
\<close>

definition proportion_confidence_interval ::
  "stats_lib \<Rightarrow> real \<Rightarrow> int \<Rightarrow> real \<Rightarrow> error + pydict" where
  "proportion_confidence_interval lib sample_proportion sample_size confidence_level =
     (let alpha = 1 - confidence_level;
          alpha_half = alpha / 2;
          np_hat = real_of_int sample_size * sample_proportion;
          nq_hat = real_of_int sample_size * (1 - sample_proportion);
          warning = (if np_hat < 5 \<or> nq_hat < 5 then PyFmt [PyFloat np_hat, PyFloat nq_hat]
                     else PyNone);
          z_critical = norm_ppf lib (1 - alpha_half)
      in case truediv (sample_proportion * (1 - sample_proportion)) (real_of_int sample_size) of
           Inl e \<Rightarrow> Inl e
         | Inr ratio \<Rightarrow>
             (case math_sqrt ratio of
                Inl e \<Rightarrow> Inl e
              | Inr std_error \<Rightarrow>
                  (let margin_error = z_critical * std_error;
                       lower_bound = max_0 (sample_proportion - margin_error);
                       upper_bound = min_1 (sample_proportion + margin_error)
                   in Inr [(''confidence_interval'', PyList [lower_bound, upper_bound]),
                           (''lower_bound'', lower_bound),
                           (''upper_bound'', upper_bound),
                           (''margin_of_error'', PyFloat margin_error),
                           (''critical_value'', PyFloat z_critical),
                           (''standard_error'', PyFloat std_error),
                           (''confidence_level'', PyFloat confidence_level),
                           (''sample_proportion'', PyFloat sample_proportion),
                           (''sample_size'', PyInt sample_size),
                           (''formula'', PyFmt []),
                           (''interpretation'',
                              PyFmt [PyFloat (confidence_level * 100), lower_bound, upper_bound]),
                           (''percentage_interpretation'',
                              PyFmt [PyFloat (confidence_level * 100), times_100 lower_bound,
                                     times_100 upper_bound]),
                           (''description'', PyFmt [PyFloat (confidence_level * 100)]),
                           (''warning'', warning)])))"

text \<open>
  \<open>sample_size_for_proportion\<close>. The critical value is a numpy scalar, so the
  division by \<open>margin_error ** 2\<close> is numpy's: a zero margin gives an infinity or NaN,
  and \<open>math.ceil\<close> raises on it.
\<close>

definition sample_size_for_proportion ::
  "stats_lib \<Rightarrow> real \<Rightarrow> real \<Rightarrow> real option \<Rightarrow> error + pydict" where
  "sample_size_for_proportion lib margin_error confidence_level estimated_proportion =
     (let alpha = 1 - confidence_level;
          z_critical = norm_ppf lib (1 - alpha / 2);
          (p_estimate, conservative) =
             (case estimated_proportion of
                None \<Rightarrow> (0.5, True)
              | Some p \<Rightarrow> (p, False));
          n_exact = np_truediv (z_critical ^ 2 * p_estimate * (1 - p_estimate)) (margin_error ^ 2)
      in case math_ceil n_exact of
           Inl e \<Rightarrow> Inl e
         | Inr n_required \<Rightarrow>
             Inr [(''sample_size_exact'', py_of_npfloat n_exact),
                  (''sample_size_required'', PyInt n_required),
                  (''margin_error'', PyFloat margin_error),
                  (''confidence_level'', PyFloat confidence_level),
                  (''critical_value'', PyFloat z_critical),
                  (''estimated_proportion'', PyFloat p_estimate),
                  (''conservative_estimate'', PyBool conservative),
                  (''formula'', PyFmt []),
                  (''description'', PyFmt [PyFloat (confidence_level * 100), PyFloat margin_error])])"

section \<open>DescriptiveStats (api/statistics/descriptive_stats.py)\<close>

text \<open>
  \<open>numpy\<close> is not part of the repository. Its arithmetic on an array of doubles works
  element by element and rounds every result to a double. The order in which
  \<open>add.reduce\<close> adds the elements of an array is numpy's own (one after the other for
  fewer than eight elements, in interleaved partial sums beyond), and each of its
  additions rounds; the reduction is a parameter of the model.
\<close>

record numpy_lib =
  add_reduce :: "real list \<Rightarrow> real"

text \<open>The data are the doubles of the array \<open>np.array(data)\<close>.\<close>

record DescriptiveStats =
  data :: "real list"
  n :: nat
  sorted_data :: "real list"

definition DescriptiveStats_init :: "real list \<Rightarrow> DescriptiveStats" where
  "DescriptiveStats_init xs = \<lparr>data = xs, n = length xs, sorted_data = sort xs\<rparr>"

text \<open>
  \<open>numpy.var(a, ddof)\<close> as numpy computes it. The mean is the reduced sum divided by
  the number of elements; the deviations \<open>arr - arrmean\<close> and their squares \<open>x * x\<close>
  are taken element by element; the squares are reduced to their sum, which is divided
  by \<open>max(N - ddof, 0)\<close>. Every one of these operations returns a double. For an empty
  array there are no deviations, so the value of the mean there does not matter.
  \<open>numpy.std\<close> is the square root of the variance.
\<close>

definition sum_squared_deviations :: "numpy_lib \<Rightarrow> real list \<Rightarrow> real" where
  "sum_squared_deviations np xs =
     (let arrmean = float64 (add_reduce np xs / real (length xs));
          x = map (\<lambda>a. float64 (a - arrmean)) xs
      in add_reduce np (map (\<lambda>d. float64 (d * d)) x))"

definition np_var :: "numpy_lib \<Rightarrow> real list \<Rightarrow> nat \<Rightarrow> npfloat" where
  "np_var np xs ddof =
     float64_truediv (sum_squared_deviations np xs) (real (length xs - ddof))"

definition np_std :: "numpy_lib \<Rightarrow> real list \<Rightarrow> nat \<Rightarrow> npfloat" where
  "np_std np xs ddof = float64_sqrt (np_var np xs ddof)"

text \<open>\<open>numpy.max\<close> and \<open>numpy.min\<close> raise on an empty array.\<close>

definition np_max :: "real list \<Rightarrow> error + real" where
  "np_max xs =
     (if xs = []
      then Inl (ValueError ''zero-size array to reduction operation maximum which has no identity'')
      else Inr (Max (set xs)))"

definition np_min :: "real list \<Rightarrow> error + real" where
  "np_min xs =
     (if xs = []
      then Inl (ValueError ''zero-size array to reduction operation minimum which has no identity'')
      else Inr (Min (set xs)))"

text \<open>
  \<open>_calculate_dispersion\<close>: the two variances and standard deviations, then the range,
  each under its key as a dictionary with the number under \<open>value\<close>.
\<close>

definition calculate_dispersion :: "numpy_lib \<Rightarrow> DescriptiveStats \<Rightarrow> error + pydict" where
  "calculate_dispersion np self =
     (let sample_var = np_var np (data self) 1;
          sample_std = np_std np (data self) 1;
          pop_var = np_var np (data self) 0;
          pop_std = np_std np (data self) 0
      in case np_max (data self) of
           Inl e \<Rightarrow> Inl e
         | Inr hi \<Rightarrow>
             (case np_min (data self) of
                Inl e \<Rightarrow> Inl e
              | Inr lo \<Rightarrow>
                  (let range_value = float64 (hi - lo)
                   in Inr [(''sample_variance'',
                              PyDict [(''value'', py_of_npfloat sample_var),
                                      (''formula'', PyFmt []),
                                      (''description'',
                                         PyStr ''Sample variance (divides by n-1 for unbiased estimate)'')]),
                           (''sample_std_dev'',
                              PyDict [(''value'', py_of_npfloat sample_std),
                                      (''formula'', PyFmt []),
                                      (''description'',
                                         PyStr ''Sample standard deviation (square root of sample variance)'')]),
                           (''population_variance'',
                              PyDict [(''value'', py_of_npfloat pop_var),
                                      (''formula'', PyFmt []),
                                      (''description'', PyStr ''Population variance (divides by n)'')]),
                           (''population_std_dev'',
                              PyDict [(''value'', py_of_npfloat pop_std),
                                      (''formula'', PyFmt []),
                                      (''description'',
                                         PyStr ''Population standard deviation (square root of population variance)'')]),
                           (''range'',
                              PyDict [(''value'', PyFloat range_value),
                                      (''formula'', PyStr ''Range = Maximum - Minimum''),
                                      (''description'',
                                         PyStr ''The difference between the largest and smallest values'')])])))"

text \<open>The number under \<open>value\<close> of the entry under a key of such a result.\<close>

definition stat_value :: "pydict \<Rightarrow> string \<Rightarrow> real option" where
  "stat_value r k =
     (case map_of r k of
        Some (PyDict d) \<Rightarrow> (case map_of d ''value'' of Some v \<Rightarrow> num_of v | None \<Rightarrow> None)
      | _ \<Rightarrow> None)"

section \<open>Names and the result display\<close>

text \<open>
  A method's local names are held in a namespace. Reading a local that no assignment on
  the path taken has bound raises UnboundLocalError. A name the method neither takes as
  a parameter nor assigns is a global: it is looked up in the module and then in the
  builtins, and raises NameError when neither has it.
\<close>

definition load_fast :: "pydict \<Rightarrow> string \<Rightarrow> error + pyval" where
  "load_fast ns name =
     (case map_of ns name of
        None \<Rightarrow> Inl (UnboundLocalError name)
      | Some v \<Rightarrow> Inr v)"

text \<open>
  The globals of api/statistics/hypothesis_testing.py: its imports (lines 2 to 5) and
  its one class.
\<close>

definition module_globals :: pydict where
  "module_globals =
     [(''np'', PyObject ''numpy''),
      (''stats'', PyObject ''scipy.stats''),
      (''Dict'', PyObject ''typing.Dict''),
      (''Any'', PyObject ''typing.Any''),
      (''Optional'', PyObject ''typing.Optional''),
      (''Literal'', PyObject ''typing.Literal''),
      (''math'', PyObject ''math''),
      (''HypothesisTesting'', PyObject ''HypothesisTesting'')]"

text \<open>
  Python's builtin functions and constants. The builtin exception classes, whose names
  all start with a capital letter, are left out: no name looked up below is one.
\<close>

definition builtin_names :: "string list" where
  "builtin_names =
     [''abs'', ''aiter'', ''all'', ''anext'', ''any'', ''ascii'', ''bin'', ''bool'',
      ''breakpoint'', ''bytearray'', ''bytes'', ''callable'', ''chr'', ''classmethod'',
      ''compile'', ''complex'', ''delattr'', ''dict'', ''dir'', ''divmod'', ''enumerate'',
      ''eval'', ''exec'', ''filter'', ''float'', ''format'', ''frozenset'', ''getattr'',
      ''globals'', ''hasattr'', ''hash'', ''help'', ''hex'', ''id'', ''input'', ''int'',
      ''isinstance'', ''issubclass'', ''iter'', ''len'', ''list'', ''locals'', ''map'',
      ''max'', ''memoryview'', ''min'', ''next'', ''object'', ''oct'', ''open'', ''ord'',
      ''pow'', ''print'', ''property'', ''range'', ''repr'', ''reversed'', ''round'',
      ''set'', ''setattr'', ''slice'', ''sorted'', ''staticmethod'', ''str'', ''sum'',
      ''super'', ''tuple'', ''type'', ''vars'', ''zip'', ''True'', ''False'', ''None'',
      ''Ellipsis'', ''NotImplemented'', ''copyright'', ''credits'', ''license'', ''exit'',
      ''quit'']"

definition load_global :: "string \<Rightarrow> error + pyval" where
  "load_global name =
     (case map_of module_globals name of
        Some v \<Rightarrow> Inr v
      | None \<Rightarrow> if name \<in> set builtin_names then Inr (PyObject name) else Inl (NameError name))"

text \<open>Truth value of a dictionary value, as \<open>if\<close> and the conditional expression test it.\<close>

fun truthy :: "pyval \<Rightarrow> bool" where
  "truthy PyNone = False"
| "truthy (PyBool b) = b"
| "truthy (PyInt i) = (i \<noteq> 0)"
| "truthy (PyFloat x) = (x \<noteq> 0)"
| "truthy (PyStr s) = (s \<noteq> [])"
| "truthy (PyList vs) = (vs \<noteq> [])"
| "truthy (PyDict d) = (d \<noteq> [])"
| "truthy v = True"

text \<open>
  The expressions a \<open>return {...}\<close> display is built from: a local, a global, a
  constant, a formatted string over expressions, the conditional expression
  \<open>a if c else b\<close> (written \<open>IfExp c a b\<close>; only the chosen arm is evaluated) and the
  comparison \<open>a == b\<close>.
\<close>

datatype expr =
    Local string
  | Global string
  | Const pyval
  | Fmt "expr list"
  | IfExp expr expr expr
  | Eq expr expr

fun eval_expr :: "pydict \<Rightarrow> expr \<Rightarrow> error + pyval"
  and eval_exprs :: "pydict \<Rightarrow> expr list \<Rightarrow> error + pyval list" where
  "eval_expr ns (Local x) = load_fast ns x"
| "eval_expr ns (Global x) = load_global x"
| "eval_expr ns (Const v) = Inr v"
| "eval_expr ns (Fmt es) =
     (case eval_exprs ns es of Inl err \<Rightarrow> Inl err | Inr vs \<Rightarrow> Inr (PyFmt vs))"
| "eval_expr ns (IfExp c a b) =
     (case eval_expr ns c of
        Inl err \<Rightarrow> Inl err
      | Inr v \<Rightarrow> if truthy v then eval_expr ns a else eval_expr ns b)"
| "eval_expr ns (Eq a b) =
     (case eval_expr ns a of
        Inl err \<Rightarrow> Inl err
      | Inr x \<Rightarrow>
          (case eval_expr ns b of Inl err \<Rightarrow> Inl err | Inr y \<Rightarrow> Inr (PyBool (x = y))))"
| "eval_exprs ns [] = Inr []"
| "eval_exprs ns (e # es) =
     (case eval_expr ns e of
        Inl err \<Rightarrow> Inl err
      | Inr v \<Rightarrow>
          (case eval_exprs ns es of Inl err \<Rightarrow> Inl err | Inr vs \<Rightarrow> Inr (v # vs)))"

text \<open>A dictionary display evaluates its entries in order and stops at the first raise.\<close>

fun eval_display :: "pydict \<Rightarrow> (string \<times> expr) list \<Rightarrow> error + pydict" where
  "eval_display ns [] = Inr []"
| "eval_display ns ((k, e) # kes) =
     (case eval_expr ns e of
        Inl err \<Rightarrow> Inl err
      | Inr v \<Rightarrow>
          (case eval_display ns kes of Inl err \<Rightarrow> Inl err | Inr d \<Rightarrow> Inr ((k, v) # d)))"

text \<open>Sequencing of two steps that can raise.\<close>

definition and_then :: "error + 'a \<Rightarrow> ('a \<Rightarrow> error + 'b) \<Rightarrow> error + 'b" where
  "and_then m f = (case m of Inl e \<Rightarrow> Inl e | Inr v \<Rightarrow> f v)"

definition py_opt :: "real option \<Rightarrow> pyval" where
  "py_opt v = (case v of None \<Rightarrow> PyNone | Some x \<Rightarrow> PyFloat x)"

section \<open>HypothesisTesting (api/statistics/hypothesis_testing.py)\<close>

text \<open>
  The file holds its four methods in the order \<open>one_sample_mean_test\<close> (from line
  17), \<open>two_sample_mean_test\<close> (from line 154), \<open>two_sample_proportion_test\<close> (from
  line 282) and \<open>one_sample_proportion_test\<close> (from line 410). Each method is modelled
  as its own text reads. Two stretches of text do not fit the method they stand in: lines
  149 to 152, the end of the display of \<open>one_sample_mean_test\<close>, speak of a proportion;
  and the rest of line 406 with lines 407 and 408, right after the closing brace of the
  display of \<open>two_sample_proportion_test\<close>, is the end of a display that speaks of a
  mean. The display of \<open>one_sample_proportion_test\<close> is cut on line 509, the last of the
  file. So \<open>one_sample_mean_test\<close> and \<open>two_sample_mean_test\<close> are modelled from their
  \<open>def\<close> to the closing brace of their \<open>return\<close> display, and the two proportion
  tests, whose \<open>return\<close> is not a statement of Python, by their bodies.
\<close>

text \<open>
  Every test has the same two blocks after its statistic, differing only in the
  distribution functions: "Critical values and p-value" and "Decision" (lines 61 to 69,
  82 to 90 and 93 to 98; 226 to 242; 343 to 359; 455 to 471). They are written once
  here, over the CDF and the quantile function in use.
\<close>

definition critical_values_and_p_value ::
  "(real \<Rightarrow> real) \<Rightarrow> (real \<Rightarrow> real) \<Rightarrow> real \<Rightarrow> string \<Rightarrow> real \<Rightarrow> real list \<times> real" where
  "critical_values_and_p_value cdf ppf alpha test_type stat =
     (if test_type = ''two-tailed''
      then ([- ppf (1 - alpha / 2), ppf (1 - alpha / 2)], 2 * (1 - cdf \<bar>stat\<bar>))
      else if test_type = ''left-tailed''
      then ([ppf alpha], cdf stat)
      else ([ppf (1 - alpha)], 1 - cdf stat))"

definition decision :: "string \<Rightarrow> real \<Rightarrow> real list \<Rightarrow> bool" where
  "decision test_type stat critical_values =
     (if test_type = ''two-tailed'' then \<bar>stat\<bar> > \<bar>critical_values ! 1\<bar>
      else if test_type = ''left-tailed'' then stat < critical_values ! 0
      else stat > critical_values ! 0)"

text \<open>
  The names bound at the end of the body of \<open>one_sample_mean_test\<close> (lines 41 to 132):
  the parameters and every local both branches assign.
\<close>

definition one_sample_mean_namespace ::
  "real \<Rightarrow> int \<Rightarrow> real \<Rightarrow> real \<Rightarrow> string \<Rightarrow> real option \<Rightarrow> real option \<Rightarrow>
   real \<Rightarrow> real \<Rightarrow> string \<Rightarrow> pyval \<Rightarrow> real list \<Rightarrow> real \<Rightarrow> pydict" where
  "one_sample_mean_namespace sample_mean sample_size null_mean alpha test_type
       population_std sample_std std_error test_stat distribution_type df critical_values p_value =
     [(''self'', PyObject ''HypothesisTesting''),
      (''sample_mean'', PyFloat sample_mean),
      (''sample_size'', PyInt sample_size),
      (''null_mean'', PyFloat null_mean),
      (''alpha'', PyFloat alpha),
      (''test_type'', PyStr test_type),
      (''population_std'', py_opt population_std),
      (''sample_std'', py_opt sample_std),
      (''h0'', PyFmt [PyFloat null_mean]),
      (''h1'', PyFmt [PyFloat null_mean]),
      (''std_error'', PyFloat std_error),
      (''test_stat'', PyFloat test_stat),
      (''distribution_type'', PyStr distribution_type),
      (''df'', df),
      (''critical_values'', PyList (map PyFloat critical_values)),
      (''p_value'', PyFloat p_value),
      (''reject_null'', PyBool (decision test_type test_stat critical_values)),
      (''steps'', PyList [])]"

text \<open>
  The body of \<open>one_sample_mean_test\<close> up to its \<open>return\<close>: the z-test when
  \<open>population_std\<close> is not None, whatever \<open>sample_std\<close> is; otherwise the t-test with
  \<open>df = sample_size - 1\<close>, and the ValueError when \<open>sample_std\<close> is None too.
\<close>

definition one_sample_mean_locals ::
  "stats_lib \<Rightarrow> real \<Rightarrow> int \<Rightarrow> real \<Rightarrow> real \<Rightarrow> string \<Rightarrow> real option \<Rightarrow> real option
   \<Rightarrow> error + pydict" where
  "one_sample_mean_locals lib sample_mean sample_size null_mean alpha test_type
       population_std sample_std =
     (case population_std of
        Some sigma \<Rightarrow>
          and_then (math_sqrt (real_of_int sample_size)) (\<lambda>rt.
          and_then (truediv sigma rt) (\<lambda>std_error.
          and_then (truediv (sample_mean - null_mean) std_error) (\<lambda>test_stat.
            (let (critical_values, p_value) =
                   critical_values_and_p_value (norm_cdf lib) (norm_ppf lib) alpha test_type test_stat
             in Inr (one_sample_mean_namespace sample_mean sample_size null_mean alpha test_type
                       population_std sample_std std_error test_stat ''z'' PyNone
                       critical_values p_value)))))
      | None \<Rightarrow>
          (case sample_std of
             None \<Rightarrow> Inl (ValueError ''Either population_std or sample_std must be provided'')
           | Some s \<Rightarrow>
               (let df = sample_size - 1
                in and_then (math_sqrt (real_of_int sample_size)) (\<lambda>rt.
                   and_then (truediv s rt) (\<lambda>std_error.
                   and_then (truediv (sample_mean - null_mean) std_error) (\<lambda>test_stat.
                     (let (critical_values, p_value) =
                            critical_values_and_p_value
                              (\<lambda>x. t_cdf lib x (real_of_int df)) (\<lambda>q. t_ppf lib q (real_of_int df))
                              alpha test_type test_stat
                      in Inr (one_sample_mean_namespace sample_mean sample_size null_mean alpha
                                test_type population_std sample_std std_error test_stat ''t''
                                (PyInt df) critical_values p_value))))))))"

text \<open>
  The \<open>return\<close> display of \<open>one_sample_mean_test\<close> as the file has it (lines 134 to
  152). Its last three entries speak of a proportion test: the interpolation
  \<open>{null_proportion}\<close> in \<open>interpretation\<close> and the value of \<open>warning\<close> name what this
  method neither takes nor assigns.
\<close>

definition one_sample_mean_return :: "(string \<times> expr) list" where
  "one_sample_mean_return =
     [(''test_statistic'', Local ''test_stat''),
      (''critical_values'', Local ''critical_values''),
      (''p_value'', Local ''p_value''),
      (''alpha'', Local ''alpha''),
      (''reject_null'', Local ''reject_null''),
      (''distribution_type'', Local ''distribution_type''),
      (''degrees_of_freedom'', Local ''df''),
      (''standard_error'', Local ''std_error''),
      (''test_type'', Local ''test_type''),
      (''null_hypothesis'', Local ''h0''),
      (''alternative_hypothesis'', Local ''h1''),
      (''formula'',
         Fmt [Local ''distribution_type'',
              IfExp (Local ''population_std'') (Const (PyFmt [])) (Const (PyStr ''s''))]),
      (''steps'', Local ''steps''),
      (''conclusion'',
         Fmt [IfExp (Local ''reject_null'') (Const (PyStr ''Reject''))
                (Const (PyStr ''Fail to reject'')),
              Local ''alpha'']),
      (''interpretation'',
         Fmt [IfExp (Local ''reject_null'') (Const (PyStr ''is'')) (Const (PyStr ''is not'')),
              IfExp (Eq (Local ''test_type'') (Const (PyStr ''two-tailed'')))
                (Const (PyStr ''is not equal to''))
                (IfExp (Eq (Local ''test_type'') (Const (PyStr ''left-tailed'')))
                   (Const (PyStr ''is less than'')) (Const (PyStr ''is greater than''))),
              Global ''null_proportion'']),
      (''description'', Const (PyStr ''One-sample z-test for population proportion'')),
      (''warning'', Global ''warning'')]"

definition one_sample_mean_test ::
  "stats_lib \<Rightarrow> real \<Rightarrow> int \<Rightarrow> real \<Rightarrow> real \<Rightarrow> string \<Rightarrow> real option \<Rightarrow> real option
   \<Rightarrow> error + pydict" where
  "one_sample_mean_test lib sample_mean sample_size null_mean alpha test_type
       population_std sample_std =
     and_then
       (one_sample_mean_locals lib sample_mean sample_size null_mean alpha test_type
          population_std sample_std)
       (\<lambda>ns. eval_display ns one_sample_mean_return)"

text \<open>
  The body of \<open>two_sample_mean_test\<close> up to its \<open>return\<close> (lines 182 to 260). The
  pooled branch binds \<open>pooled_var\<close> and \<open>pooled_std\<close>; Welch's branch binds
  \<open>numerator\<close> and \<open>denominator\<close> instead and leaves \<open>pooled_var\<close> unbound. Welch's
  branch writes the two quotients \<open>s1**2/n1\<close> and \<open>s2**2/n2\<close> three times; they are
  computed once here, as the first evaluation decides whether they raise.
\<close>

definition two_sample_mean_locals ::
  "stats_lib \<Rightarrow> real \<Rightarrow> int \<Rightarrow> real \<Rightarrow> real \<Rightarrow> int \<Rightarrow> real \<Rightarrow> real \<Rightarrow> string \<Rightarrow> bool
   \<Rightarrow> error + pydict" where
  "two_sample_mean_locals lib sample1_mean sample1_size sample1_std sample2_mean sample2_size
       sample2_std alpha test_type equal_variances =
     and_then
       (if equal_variances
        then
          and_then (truediv ((real_of_int sample1_size - 1) * sample1_std ^ 2
                               + (real_of_int sample2_size - 1) * sample2_std ^ 2)
                      (real_of_int (sample1_size + sample2_size - 2))) (\<lambda>pooled_var.
          and_then (math_sqrt pooled_var) (\<lambda>pooled_std.
          and_then (truediv 1 (real_of_int sample1_size)) (\<lambda>r1.
          and_then (truediv 1 (real_of_int sample2_size)) (\<lambda>r2.
          and_then (math_sqrt (r1 + r2)) (\<lambda>rt.
            Inr ([(''pooled_var'', PyFloat pooled_var), (''pooled_std'', PyFloat pooled_std)],
                 pooled_std * rt,
                 PyInt (sample1_size + sample2_size - 2),
                 real_of_int (sample1_size + sample2_size - 2)))))))
        else
          and_then (truediv (sample1_std ^ 2) (real_of_int sample1_size)) (\<lambda>v1.
          and_then (truediv (sample2_std ^ 2) (real_of_int sample2_size)) (\<lambda>v2.
          and_then (math_sqrt (v1 + v2)) (\<lambda>std_error.
          and_then (truediv (v1 ^ 2) (real_of_int (sample1_size - 1))) (\<lambda>d1.
          and_then (truediv (v2 ^ 2) (real_of_int (sample2_size - 1))) (\<lambda>d2.
          and_then (truediv ((v1 + v2) ^ 2) (d1 + d2)) (\<lambda>df.
            Inr ([(''numerator'', PyFloat ((v1 + v2) ^ 2)), (''denominator'', PyFloat (d1 + d2))],
                 std_error, PyFloat df, df))))))))
       (\<lambda>(branch, std_error, df_value, df).
          and_then (truediv (sample1_mean - sample2_mean) std_error) (\<lambda>t_stat.
            (let (critical_values, p_value) =
                   critical_values_and_p_value (\<lambda>x. t_cdf lib x df) (\<lambda>q. t_ppf lib q df)
                     alpha test_type t_stat
             in Inr ([(''self'', PyObject ''HypothesisTesting''),
                      (''sample1_mean'', PyFloat sample1_mean),
                      (''sample1_size'', PyInt sample1_size),
                      (''sample1_std'', PyFloat sample1_std),
                      (''sample2_mean'', PyFloat sample2_mean),
                      (''sample2_size'', PyInt sample2_size),
                      (''sample2_std'', PyFloat sample2_std),
                      (''alpha'', PyFloat alpha),
                      (''test_type'', PyStr test_type),
                      (''equal_variances'', PyBool equal_variances),
                      (''h0'', PyFmt []),
                      (''h1'', PyFmt [])]
                     @ branch
                     @ [(''std_error'', PyFloat std_error),
                        (''df'', df_value),
                        (''variance_steps'', PyList []),
                        (''t_stat'', PyFloat t_stat),
                        (''critical_values'', PyList (map PyFloat critical_values)),
                        (''p_value'', PyFloat p_value),
                        (''reject_null'', PyBool (decision test_type t_stat critical_values)),
                        (''steps'', PyList [])]))))"

text \<open>
  The \<open>return\<close> display of \<open>two_sample_mean_test\<close> (lines 262 to 280). The entry
  \<open>pooled_variance\<close> is the conditional expression
  \<open>pooled_var if equal_variances else None\<close>.
\<close>

definition two_sample_mean_return :: "(string \<times> expr) list" where
  "two_sample_mean_return =
     [(''test_statistic'', Local ''t_stat''),
      (''critical_values'', Local ''critical_values''),
      (''p_value'', Local ''p_value''),
      (''alpha'', Local ''alpha''),
      (''reject_null'', Local ''reject_null''),
      (''degrees_of_freedom'', Local ''df''),
      (''standard_error'', Local ''std_error''),
      (''test_type'', Local ''test_type''),
      (''equal_variances'', Local ''equal_variances''),
      (''null_hypothesis'', Local ''h0''),
      (''alternative_hypothesis'', Local ''h1''),
      (''pooled_variance'',
         IfExp (Local ''equal_variances'') (Local ''pooled_var'') (Const PyNone)),
      (''formula'', Const (PyFmt [])),
      (''steps'', Local ''steps''),
      (''conclusion'',
         Fmt [IfExp (Local ''reject_null'') (Const (PyStr ''Reject''))
                (Const (PyStr ''Fail to reject'')),
              Local ''alpha'']),
      (''interpretation'',
         Fmt [IfExp (Local ''reject_null'') (Const (PyStr ''is'')) (Const (PyStr ''is not''))]),
      (''description'',
         Fmt [IfExp (Local ''equal_variances'') (Const (PyStr ''equal''))
                (Const (PyStr ''unequal''))])]"

definition two_sample_mean_test ::
  "stats_lib \<Rightarrow> real \<Rightarrow> int \<Rightarrow> real \<Rightarrow> real \<Rightarrow> int \<Rightarrow> real \<Rightarrow> real \<Rightarrow> string \<Rightarrow> bool
   \<Rightarrow> error + pydict" where
  "two_sample_mean_test lib sample1_mean sample1_size sample1_std sample2_mean sample2_size
       sample2_std alpha test_type equal_variances =
     and_then
       (two_sample_mean_locals lib sample1_mean sample1_size sample1_std sample2_mean
          sample2_size sample2_std alpha test_type equal_variances)
       (\<lambda>ns. eval_display ns two_sample_mean_return)"

text \<open>
  The body of \<open>two_sample_proportion_test\<close> up to its \<open>return\<close> (lines 304 to 385).
\<close>

definition two_sample_proportion_locals ::
  "stats_lib \<Rightarrow> int \<Rightarrow> int \<Rightarrow> int \<Rightarrow> int \<Rightarrow> real \<Rightarrow> string \<Rightarrow> error + pydict" where
  "two_sample_proportion_locals lib sample1_successes sample1_size sample2_successes
       sample2_size alpha test_type =
     and_then (truediv (real_of_int sample1_successes) (real_of_int sample1_size)) (\<lambda>p1_hat.
     and_then (truediv (real_of_int sample2_successes) (real_of_int sample2_size)) (\<lambda>p2_hat.
     and_then (truediv (real_of_int (sample1_successes + sample2_successes))
                 (real_of_int (sample1_size + sample2_size))) (\<lambda>p_pooled.
       (let q_pooled = 1 - p_pooled;
            conditions = [real_of_int sample1_size * p_pooled \<ge> 5,
                          real_of_int sample1_size * q_pooled \<ge> 5,
                          real_of_int sample2_size * p_pooled \<ge> 5,
                          real_of_int sample2_size * q_pooled \<ge> 5];
            warning = (if \<not> list_all id conditions then PyFmt [] else PyNone)
        in and_then (truediv 1 (real_of_int sample1_size)) (\<lambda>r1.
           and_then (truediv 1 (real_of_int sample2_size)) (\<lambda>r2.
           and_then (math_sqrt (p_pooled * q_pooled * (r1 + r2))) (\<lambda>std_error.
           and_then (truediv (p1_hat - p2_hat) std_error) (\<lambda>z_stat.
             (let (critical_values, p_value) =
                    critical_values_and_p_value (norm_cdf lib) (norm_ppf lib) alpha test_type z_stat
              in Inr [(''self'', PyObject ''HypothesisTesting''),
                      (''sample1_successes'', PyInt sample1_successes),
                      (''sample1_size'', PyInt sample1_size),
                      (''sample2_successes'', PyInt sample2_successes),
                      (''sample2_size'', PyInt sample2_size),
                      (''alpha'', PyFloat alpha),
                      (''test_type'', PyStr test_type),
                      (''p1_hat'', PyFloat p1_hat),
                      (''p2_hat'', PyFloat p2_hat),
                      (''p_pooled'', PyFloat p_pooled),
                      (''q_pooled'', PyFloat q_pooled),
                      (''conditions'', PyList (map PyBool conditions)),
                      (''warning'', warning),
                      (''h0'', PyFmt []),
                      (''h1'', PyFmt []),
                      (''std_error'', PyFloat std_error),
                      (''z_stat'', PyFloat z_stat),
                      (''critical_values'', PyList (map PyFloat critical_values)),
                      (''p_value'', PyFloat p_value),
                      (''reject_null'', PyBool (decision test_type z_stat critical_values)),
                      (''steps'', PyList [])])))))))))"

text \<open>
  The \<open>return\<close> of \<open>two_sample_proportion_test\<close> (lines 387 to 408) is not modelled.
  Its display is closed on line 406, and the same line goes on with the end of another
  display, down to a second closing brace on line 408: what follows \<open>return\<close> is not an
  expression, and the method has no result.
\<close>

text \<open>
  The body of \<open>one_sample_proportion_test\<close> up to its \<open>return\<close> (lines 430 to 491):
  the warning, the standard error under the null proportion, the statistic, the critical
  values, the p-value and the decision.
\<close>

definition one_sample_proportion_locals ::
  "stats_lib \<Rightarrow> real \<Rightarrow> int \<Rightarrow> real \<Rightarrow> real \<Rightarrow> string \<Rightarrow> error + pydict" where
  "one_sample_proportion_locals lib sample_proportion sample_size null_proportion alpha test_type =
     (let np0 = real_of_int sample_size * null_proportion;
          nq0 = real_of_int sample_size * (1 - null_proportion);
          warning = (if np0 < 5 \<or> nq0 < 5 then PyFmt [PyFloat np0, PyFloat nq0] else PyNone)
      in and_then (truediv (null_proportion * (1 - null_proportion)) (real_of_int sample_size))
           (\<lambda>ratio.
         and_then (math_sqrt ratio) (\<lambda>std_error.
         and_then (truediv (sample_proportion - null_proportion) std_error) (\<lambda>z_stat.
           (let (critical_values, p_value) =
                  critical_values_and_p_value (norm_cdf lib) (norm_ppf lib) alpha test_type z_stat
            in Inr [(''self'', PyObject ''HypothesisTesting''),
                    (''sample_proportion'', PyFloat sample_proportion),
                    (''sample_size'', PyInt sample_size),
                    (''null_proportion'', PyFloat null_proportion),
                    (''alpha'', PyFloat alpha),
                    (''test_type'', PyStr test_type),
                    (''np0'', PyFloat np0),
                    (''nq0'', PyFloat nq0),
                    (''warning'', warning),
                    (''h0'', PyFmt [PyFloat null_proportion]),
                    (''h1'', PyFmt [PyFloat null_proportion]),
                    (''std_error'', PyFloat std_error),
                    (''z_stat'', PyFloat z_stat),
                    (''critical_values'', PyList (map PyFloat critical_values)),
                    (''p_value'', PyFloat p_value),
                    (''reject_null'', PyBool (decision test_type z_stat critical_values)),
                    (''steps'', PyList [])])))))"

text \<open>
  The \<open>return\<close> display of \<open>one_sample_proportion_test\<close> as far as the file has it
  (lines 493 to 508). Its next entry, \<open>interpretation\<close>, breaks off inside the formatted
  string on line 509, where the file ends: the display is never closed and the method has
  no complete \<open>return\<close>. The text that would close it, with the entries \<open>description\<close>
  and \<open>warning\<close>, stands inside \<open>one_sample_mean_test\<close> (lines 149 to 152).
\<close>

definition one_sample_proportion_return :: "(string \<times> expr) list" where
  "one_sample_proportion_return =
     [(''test_statistic'', Local ''z_stat''),
      (''critical_values'', Local ''critical_values''),
      (''p_value'', Local ''p_value''),
      (''alpha'', Local ''alpha''),
      (''reject_null'', Local ''reject_null''),
      (''standard_error'', Local ''std_error''),
      (''test_type'', Local ''test_type''),
      (''null_hypothesis'', Local ''h0''),
      (''alternative_hypothesis'', Local ''h1''),
      (''sample_proportion'', Local ''sample_proportion''),
      (''sample_size'', Local ''sample_size''),
      (''null_proportion'', Local ''null_proportion''),
      (''formula'', Const (PyFmt [])),
      (''steps'', Local ''steps''),
      (''conclusion'',
         Fmt [IfExp (Local ''reject_null'') (Const (PyStr ''Reject''))
                (Const (PyStr ''Fail to reject'')),
              Local ''alpha''])]"

section \<open>A concrete library for evaluation\<close>

text \<open>
  Evaluating a call at an input needs concrete distribution functions. The algebraic
  sigmoid is a CDF symmetric about zero, strictly increasing and continuous, whose
  quantile function is rational, so calls evaluate exactly. It stands in for both
  distributions where a statement holds for every library and is only shown at an input.
\<close>

definition sigmoid_cdf :: "real \<Rightarrow> real" where
  "sigmoid_cdf x = (1 + x / (1 + \<bar>x\<bar>)) / 2"

definition sigmoid_ppf :: "real \<Rightarrow> real" where
  "sigmoid_ppf q = (2 * q - 1) / (1 - \<bar>2 * q - 1\<bar>)"

definition sigmoid_lib :: stats_lib where
  "sigmoid_lib =
     \<lparr>norm_cdf = sigmoid_cdf, norm_ppf = sigmoid_ppf,
      t_cdf = (\<lambda>x df. sigmoid_cdf x), t_ppf = (\<lambda>q df. sigmoid_ppf q)\<rparr>"

text \<open>
  For the scenario of the required sample size: a library whose normal quantile function
  has scipy's value at 0.975, which Python prints as 1.959963984540054.
\<close>

definition scipy_975_lib :: stats_lib where
  "scipy_975_lib =
     sigmoid_lib\<lparr>norm_ppf := (\<lambda>q. if q = 39 / 40 then 1.959963984540054 else sigmoid_ppf q)\<rparr>"

text \<open>
  What the exactness of a CDF and its quantile function means where the tests use
  them: the CDF is strictly increasing, is one half at zero, and the quantile function
  is its right inverse on the open unit interval.
\<close>

definition exact_distribution :: "(real \<Rightarrow> real) \<Rightarrow> (real \<Rightarrow> real) \<Rightarrow> bool" where
  "exact_distribution cdf ppf \<longleftrightarrow>
     strict_mono cdf \<and> cdf 0 = 1 / 2 \<and> (\<forall>q. 0 < q \<and> q < 1 \<longrightarrow> cdf (ppf q) = q)"


text \<open>
  For the variances at an input: the reduction that adds the elements one after the
  other from 0, rounding each sum, which is numpy's for an array of fewer than eight
  elements.
\<close>

definition sequential_sum :: "real list \<Rightarrow> real" where
  "sequential_sum xs = foldl (\<lambda>res a. float64 (res + a)) 0 xs"

definition numpy_sequential :: numpy_lib where
  "numpy_sequential = \<lparr>add_reduce = sequential_sum\<rparr>"

section \<open>Properties of NormalDistribution\<close>

text \<open>
  C4, as the code has it. The constructor never fails: for every pair, a standard
  deviation of zero or below included, it returns the instance holding exactly the two
  values. The rejection of a non-positive standard deviation is the web route's, before
  it constructs.
\<close>

theorem NormalDistribution_init_never_fails:
  "NormalDistribution_init mu sigma = Inr \<lparr>mean = mu, std_dev = sigma\<rparr>
   \<and> (sigma \<le> 0 \<longrightarrow>
        normal_distribution_calculations_construct (Some mu) (Some sigma)
          = Inl (''Standard deviation must be positive'', 400))
   \<and> (0 < sigma \<longrightarrow>
        normal_distribution_calculations_construct (Some mu) (Some sigma)
          = Inr (Inr \<lparr>mean = mu, std_dev = sigma\<rparr>))"
  by (simp add: NormalDistribution_init_def normal_distribution_calculations_construct_def)

theorem NormalDistribution_init_never_fails_witness:
  "NormalDistribution_init 5 (-1) = Inr \<lparr>mean = 5, std_dev = -1\<rparr>
   \<and> normal_distribution_calculations_construct (Some 5) (Some (-1))
       = Inl (''Standard deviation must be positive'', 400)
   \<and> normal_distribution_calculations_construct (Some 5) (Some 2)
       = Inr (Inr \<lparr>mean = 5, std_dev = 2\<rparr>)"
  using NormalDistribution_init_never_fails [of 5 "-1"]
    NormalDistribution_init_never_fails [of 5 2]
  by simp

text \<open>
  C4 as stated fails: with mean 5 and standard deviation -1 the constructor returns an
  instance, and the instance is usable: its z-score of 3 is 2.
\<close>

theorem NormalDistribution_init_counterexample:
  "NormalDistribution_init 5 (-1) = Inr \<lparr>mean = 5, std_dev = -1\<rparr>
   \<and> calculate_z_score \<lparr>mean = 5, std_dev = -1\<rparr> 3
       = Inr [(''z_score'', PyFloat 2), (''formula'', PyFmt [])]"
  by (simp add: NormalDistribution_init_def calculate_z_score_def truediv_def)

text \<open>
  C7. For every instance and every x, \<open>equal_to\<close> gives the same outcome in the numeric
  entries as \<open>less_than\<close>: with a non-zero standard deviation the probability entry is
  the CDF at the z-score of x in both, and with a zero standard deviation both raise
  ZeroDivisionError.
\<close>

theorem calculate_probability_equal_to_is_cdf:
  "(std_dev self \<noteq> 0 \<longrightarrow>
      (\<exists>r. calculate_probability lib self x ''equal_to'' = Inr r
         \<and> map_of r ''probability''
             = Some (PyFloat (norm_cdf lib ((x - mean self) / std_dev self)))))
   \<and> map_sum id (\<lambda>r. map_of r ''probability'') (calculate_probability lib self x ''equal_to'')
       = map_sum id (\<lambda>r. map_of r ''probability'') (calculate_probability lib self x ''less_than'')
   \<and> map_sum id (\<lambda>r. map_of r ''percentage'') (calculate_probability lib self x ''equal_to'')
       = map_sum id (\<lambda>r. map_of r ''percentage'') (calculate_probability lib self x ''less_than'')"
  by (simp add: calculate_probability_def truediv_def Let_def)

theorem calculate_probability_equal_to_is_cdf_witness:
  "std_dev \<lparr>mean = 100, std_dev = 15\<rparr> \<noteq> 0
   \<and> map_of (projr (calculate_probability sigmoid_lib \<lparr>mean = 100, std_dev = 15\<rparr> 115
                      ''equal_to'')) ''probability''
       = Some (PyFloat (3 / 4))
   \<and> map_of (projr (calculate_probability sigmoid_lib \<lparr>mean = 100, std_dev = 15\<rparr> 115
                      ''less_than'')) ''probability''
       = Some (PyFloat (3 / 4))"
  using calculate_probability_equal_to_is_cdf
    [of "\<lparr>mean = 100, std_dev = 15\<rparr>" sigmoid_lib 115]
  by (auto simp: sigmoid_lib_def sigmoid_cdf_def calculate_probability_def truediv_def)

section \<open>Exact distributions\<close>

text \<open>Above one half the quantile function of an exact distribution is positive.\<close>

lemma exact_upper_quantile_pos:
  assumes "exact_distribution cdf ppf" and "1 / 2 < q" and "q < 1"
  shows "0 < ppf q"
proof -
  have mono: "strict_mono cdf" and half: "cdf 0 = 1 / 2" and inv: "cdf (ppf q) = q"
    using assms by (simp_all add: exact_distribution_def)
  have "cdf 0 < cdf (ppf q)"
    using assms(2) half inv by simp
  then show ?thesis
    using mono by (simp add: strict_mono_less)
qed

text \<open>The sigmoid pair is an exact distribution.\<close>

lemma sigmoid_exact: "exact_distribution sigmoid_cdf sigmoid_ppf"
proof -
  have mono: "strict_mono sigmoid_cdf"
  proof (rule strict_monoI)
    fix x y :: real
    assume less: "x < y"
    have cross: "x * (1 + \<bar>y\<bar>) < y * (1 + \<bar>x\<bar>)"
    proof (cases "0 \<le> x")
      case True
      then show ?thesis
        using less by (simp add: algebra_simps)
    next
      case xneg: False
      show ?thesis
      proof (cases "0 \<le> y")
        case True
        have "x * (1 + \<bar>y\<bar>) < 0"
          using xneg True by (simp add: mult_neg_pos)
        moreover have "0 \<le> y * (1 + \<bar>x\<bar>)"
          using True by simp
        ultimately show ?thesis
          by linarith
      next
        case False
        then show ?thesis
          using less xneg by (simp add: algebra_simps)
      qed
    qed
    have dens: "0 < 1 + \<bar>x\<bar>" "0 < 1 + \<bar>y\<bar>"
      by simp_all
    have "x / (1 + \<bar>x\<bar>) < y / (1 + \<bar>y\<bar>)"
      using cross dens by (simp add: pos_divide_less_eq pos_less_divide_eq mult.commute)
    then have "(1 + x / (1 + \<bar>x\<bar>)) / 2 < (1 + y / (1 + \<bar>y\<bar>)) / 2"
      by (intro divide_strict_right_mono add_strict_left_mono) simp_all
    then show "sigmoid_cdf x < sigmoid_cdf y"
      by (simp only: sigmoid_cdf_def)
  qed
  have inv: "sigmoid_cdf (sigmoid_ppf q) = q" if "0 < q" "q < 1" for q
  proof -
    define y where "y = 2 * q - 1"
    have y: "\<bar>y\<bar> < 1"
      using that by (simp add: y_def abs_if)
    then have d: "0 < 1 - \<bar>y\<bar>"
      by simp
    have "\<bar>1 - \<bar>y\<bar>\<bar> = 1 - \<bar>y\<bar>"
      using d by (rule abs_of_pos)
    then have a: "\<bar>y / (1 - \<bar>y\<bar>)\<bar> = \<bar>y\<bar> / (1 - \<bar>y\<bar>)"
      by (simp only: abs_divide)
    have "1 + \<bar>y\<bar> / (1 - \<bar>y\<bar>) = 1 / (1 - \<bar>y\<bar>)"
      using d by (simp add: field_simps)
    then have "(y / (1 - \<bar>y\<bar>)) / (1 + \<bar>y / (1 - \<bar>y\<bar>)\<bar>) = y"
      using d by (simp add: a)
    then show ?thesis
      by (simp add: sigmoid_cdf_def sigmoid_ppf_def y_def)
  qed
  show ?thesis
    using mono inv by (simp add: exact_distribution_def sigmoid_cdf_def)
qed

lemma sigmoid_lib_exact:
  "exact_distribution (norm_cdf sigmoid_lib) (norm_ppf sigmoid_lib)"
  "exact_distribution (\<lambda>x. t_cdf sigmoid_lib x df) (\<lambda>q. t_ppf sigmoid_lib q df)"
  using sigmoid_exact by (simp_all add: sigmoid_lib_def)

section \<open>Properties of ConfidenceIntervals\<close>

text \<open>
  The clamped bounds are in order as soon as the critical value is not negative.
\<close>

lemma proportion_bounds_of_nonnegative_critical_value:
  assumes "0 \<le> p" and "p \<le> 1" and "0 < sample_size"
    and "0 \<le> norm_ppf lib (1 - (1 - confidence_level) / 2)"
  shows "\<exists>r lo hi l u.
           proportion_confidence_interval lib p sample_size confidence_level = Inr r
         \<and> map_of r ''confidence_interval'' = Some (PyList [lo, hi])
         \<and> map_of r ''lower_bound'' = Some lo
         \<and> map_of r ''upper_bound'' = Some hi
         \<and> num_of lo = Some l \<and> num_of hi = Some u
         \<and> 0 \<le> l \<and> l \<le> u \<and> u \<le> 1"
proof -
  have q: "0 \<le> p * (1 - p) / real_of_int sample_size"
    using assms by simp
  define se where "se = sqrt (p * (1 - p) / real_of_int sample_size)"
  have se: "0 \<le> se"
    unfolding se_def using q by simp
  define m where "m = norm_ppf lib (1 - (1 - confidence_level) / 2) * se"
  have m: "0 \<le> m"
    unfolding m_def using assms se by simp
  have nz: "real_of_int sample_size \<noteq> 0"
    using assms by simp
  show ?thesis
    using q nz m assms(1,2)
    unfolding proportion_confidence_interval_def Let_def truediv_def math_sqrt_def
      max_0_def min_1_def m_def se_def
    by (auto simp: not_less)
qed

text \<open>
  C6. For a sample proportion in [0, 1], a positive sample size and a confidence level in
  (0, 1), with exact normal functions, \<open>proportion_confidence_interval\<close> returns a result
  whose \<open>confidence_interval\<close> is the pair of its \<open>lower_bound\<close> and \<open>upper_bound\<close>,
  two numbers with 0 \<le> lower \<le> upper \<le> 1, however large the margin of error is.
\<close>

theorem proportion_confidence_interval_within_unit:
  assumes "0 \<le> p" and "p \<le> 1" and "0 < sample_size"
    and "0 < confidence_level" and "confidence_level < 1"
    and "exact_distribution (norm_cdf lib) (norm_ppf lib)"
  shows "\<exists>r lo hi l u.
           proportion_confidence_interval lib p sample_size confidence_level = Inr r
         \<and> map_of r ''confidence_interval'' = Some (PyList [lo, hi])
         \<and> map_of r ''lower_bound'' = Some lo
         \<and> map_of r ''upper_bound'' = Some hi
         \<and> num_of lo = Some l \<and> num_of hi = Some u
         \<and> 0 \<le> l \<and> l \<le> u \<and> u \<le> 1"
proof -
  have "1 / 2 < 1 - (1 - confidence_level) / 2" and "1 - (1 - confidence_level) / 2 < 1"
    using assms(4,5) by simp_all
  then have "0 < norm_ppf lib (1 - (1 - confidence_level) / 2)"
    using assms(6) by (rule exact_upper_quantile_pos [rotated])
  then have "0 \<le> norm_ppf lib (1 - (1 - confidence_level) / 2)"
    by simp
  with assms(1-3) show ?thesis
    by (rule proportion_bounds_of_nonnegative_critical_value)
qed

text \<open>
  At sample proportion 1/2, sample size 1 and level 0.95 with the sigmoid library, the
  critical value is 19 and the margin 19/2: both bounds are clamped, to 0 and to 1.
\<close>

theorem proportion_confidence_interval_within_unit_witness:
  "(0::real) \<le> 1 / 2 \<and> (1::real) / 2 \<le> 1 \<and> (0::int) < 1
   \<and> (0::real) < 19 / 20 \<and> (19::real) / 20 < 1
   \<and> exact_distribution (norm_cdf sigmoid_lib) (norm_ppf sigmoid_lib)
   \<and> map_of (projr (proportion_confidence_interval sigmoid_lib (1 / 2) 1 (19 / 20)))
        ''margin_of_error'' = Some (PyFloat (19 / 2))
   \<and> map_of (projr (proportion_confidence_interval sigmoid_lib (1 / 2) 1 (19 / 20)))
        ''confidence_interval'' = Some (PyList [PyInt 0, PyInt 1])
   \<and> (\<exists>r lo hi l u.
           proportion_confidence_interval sigmoid_lib (1 / 2) 1 (19 / 20) = Inr r
         \<and> map_of r ''confidence_interval'' = Some (PyList [lo, hi])
         \<and> map_of r ''lower_bound'' = Some lo
         \<and> map_of r ''upper_bound'' = Some hi
         \<and> num_of lo = Some l \<and> num_of hi = Some u
         \<and> 0 \<le> l \<and> l \<le> u \<and> u \<le> 1)"
proof -
  have ev: "map_of (projr (proportion_confidence_interval sigmoid_lib (1 / 2) 1 (19 / 20)))
              ''margin_of_error'' = Some (PyFloat (19 / 2))"
     "map_of (projr (proportion_confidence_interval sigmoid_lib (1 / 2) 1 (19 / 20)))
              ''confidence_interval'' = Some (PyList [PyInt 0, PyInt 1])"
    by (simp_all add: proportion_confidence_interval_def Let_def truediv_def math_sqrt_def
          max_0_def min_1_def sigmoid_lib_def sigmoid_ppf_def real_sqrt_divide)
  show ?thesis
    using proportion_confidence_interval_within_unit
      [of "1 / 2" 1 "19 / 20" sigmoid_lib, OF _ _ _ _ _ sigmoid_lib_exact(1)]
      ev sigmoid_lib_exact(1)
    by simp
qed

text \<open>
  C9. With no prior estimate and a non-zero margin of error,
  \<open>sample_size_for_proportion\<close> uses p = 0.5, returns z * z * p * (1 - p) / (ME * ME) as
  \<open>sample_size_exact\<close> and its ceiling as \<open>sample_size_required\<close>, where z is
  \<open>stats.norm.ppf(1 - alpha/2)\<close>. For margin 0.03 and level 0.95 the required size is
  1068 for every z between 1.9599 and 1.96, where the normal quantile of 0.975 lies.
\<close>

theorem sample_size_for_proportion_no_estimate:
  "(margin_error \<noteq> 0 \<longrightarrow>
      (\<exists>r. sample_size_for_proportion lib margin_error confidence_level None = Inr r
         \<and> map_of r ''estimated_proportion'' = Some (PyFloat 0.5)
         \<and> map_of r ''conservative_estimate'' = Some (PyBool True)
         \<and> map_of r ''sample_size_exact''
              = Some (PyFloat ((norm_ppf lib (1 - (1 - confidence_level) / 2)) ^ 2 * 0.5 * (1 - 0.5)
                                / margin_error ^ 2))
         \<and> map_of r ''sample_size_required''
              = Some (PyInt \<lceil>(norm_ppf lib (1 - (1 - confidence_level) / 2)) ^ 2 * 0.5 * (1 - 0.5)
                                / margin_error ^ 2\<rceil>)))
   \<and> (1.9599 \<le> norm_ppf lib (1 - (1 - 0.95) / 2) \<and> norm_ppf lib (1 - (1 - 0.95) / 2) \<le> 1.96 \<longrightarrow>
        (\<exists>r. sample_size_for_proportion lib 0.03 0.95 None = Inr r
           \<and> map_of r ''estimated_proportion'' = Some (PyFloat 0.5)
           \<and> map_of r ''sample_size_required'' = Some (PyInt 1068)))"
proof (intro conjI impI)
  assume "margin_error \<noteq> 0"
  then show "\<exists>r. sample_size_for_proportion lib margin_error confidence_level None = Inr r
         \<and> map_of r ''estimated_proportion'' = Some (PyFloat 0.5)
         \<and> map_of r ''conservative_estimate'' = Some (PyBool True)
         \<and> map_of r ''sample_size_exact''
              = Some (PyFloat ((norm_ppf lib (1 - (1 - confidence_level) / 2)) ^ 2 * 0.5 * (1 - 0.5)
                                / margin_error ^ 2))
         \<and> map_of r ''sample_size_required''
              = Some (PyInt \<lceil>(norm_ppf lib (1 - (1 - confidence_level) / 2)) ^ 2 * 0.5 * (1 - 0.5)
                                / margin_error ^ 2\<rceil>)"
    by (simp add: sample_size_for_proportion_def Let_def np_truediv_def)
next
  assume a: "1.9599 \<le> norm_ppf lib (1 - (1 - 0.95) / 2) \<and> norm_ppf lib (1 - (1 - 0.95) / 2) \<le> 1.96"
  define z where "z = norm_ppf lib (1 - (1 - 0.95) / 2)"
  have z1: "1.9599 \<le> z" and z2: "z \<le> 1.96"
    using a by (simp_all add: z_def)
  have "1.9599 ^ 2 \<le> z ^ 2"
    using z1 by (intro power_mono) auto
  moreover have "z ^ 2 \<le> 1.96 ^ 2"
    using z1 z2 by (intro power_mono) auto
  ultimately have b: "3.84120801 \<le> z ^ 2" "z ^ 2 \<le> 3.8416"
    by (simp_all add: power2_eq_square)
  have "\<lceil>z ^ 2 * 0.5 * (1 - 0.5) / 0.03 ^ 2\<rceil> = 1068"
    using b by (simp add: ceiling_eq_iff power2_eq_square)
  then show "\<exists>r. sample_size_for_proportion lib 0.03 0.95 None = Inr r
           \<and> map_of r ''estimated_proportion'' = Some (PyFloat 0.5)
           \<and> map_of r ''sample_size_required'' = Some (PyInt 1068)"
    by (simp add: sample_size_for_proportion_def Let_def np_truediv_def z_def)
qed

theorem sample_size_for_proportion_no_estimate_witness:
  "(0.03::real) \<noteq> 0
   \<and> 1.9599 \<le> norm_ppf scipy_975_lib (1 - (1 - 0.95) / 2)
   \<and> norm_ppf scipy_975_lib (1 - (1 - 0.95) / 2) \<le> 1.96
   \<and> (\<exists>r. sample_size_for_proportion scipy_975_lib 0.03 0.95 None = Inr r
         \<and> map_of r ''estimated_proportion'' = Some (PyFloat 0.5)
         \<and> map_of r ''sample_size_required'' = Some (PyInt 1068))"
  using sample_size_for_proportion_no_estimate [of "0.03" scipy_975_lib "0.95"]
  by (simp add: scipy_975_lib_def)

section \<open>Rounding to a double\<close>

text \<open>Rounding to an integer moves a number by at most one half, and keeps the order.\<close>

lemma round_half_even_error: "\<bar>of_int (round_half_even x) - x\<bar> \<le> 1 / 2"
  unfolding round_half_even_def Let_def by (auto simp: abs_if) linarith+



lemma round_half_even_near:
  assumes "\<bar>x - of_int m\<bar> < 1 / 2"
  shows "round_half_even x = m"
proof (cases "of_int m \<le> x")
  case True
  then have "\<lfloor>x\<rfloor> = m"
    using assms by (intro floor_unique) (auto simp: abs_if split: if_splits)
  then show ?thesis
    using assms True unfolding round_half_even_def Let_def by (auto simp: abs_if)
next
  case False
  then have "\<lfloor>x\<rfloor> = m - 1"
    using assms by (intro floor_unique) (auto simp: abs_if split: if_splits)
  then show ?thesis
    using assms False unfolding round_half_even_def Let_def by (auto simp: abs_if)
qed

text \<open>
  The rounding of a number whose binade is known, and the value it takes when the number
  is nearer to one multiple of the unit in the last place than to any other.
\<close>

lemma float64_binade:
  assumes "2 powr of_int k \<le> \<bar>x\<bar>" and "\<bar>x\<bar> < 2 powr (of_int k + 1)"
  shows "float64 x
           = of_int (round_half_even (x / 2 powr (of_int k - 52))) * 2 powr (of_int k - 52)"
proof -
  have pos: "0 < \<bar>x\<bar>"
    using assms(1) powr_gt_zero [of 2 "of_int k"] by linarith
  then have "\<lfloor>log 2 \<bar>x\<bar>\<rfloor> = k"
    using assms by (simp add: floor_log_eq_powr_iff)
  then show ?thesis
    using pos by (simp add: float64_def Let_def)
qed

lemma float64_eval:
  assumes "2 powr of_int k \<le> \<bar>x\<bar>" and "\<bar>x\<bar> < 2 powr (of_int k + 1)"
    and "\<bar>x / 2 powr (of_int k - 52) - of_int m\<bar> < 1 / 2"
  shows "float64 x = of_int m * 2 powr (of_int k - 52)"
  using float64_binade [OF assms(1,2)] round_half_even_near [OF assms(3)] by simp

text \<open>A rounded number differs from the exact one by at most its 2^53th part.\<close>

lemma float64_error: "\<bar>float64 x - x\<bar> \<le> \<bar>x\<bar> / 2 ^ 53"
proof (cases "x = 0")
  case True
  then show ?thesis
    by (simp add: float64_def)
next
  case False
  define k where "k = \<lfloor>log 2 \<bar>x\<bar>\<rfloor>"
  define u :: real where "u = 2 powr (of_int k - 52)"
  have u: "0 < u"
    by (simp add: u_def)
  have lo: "2 powr of_int k \<le> \<bar>x\<bar>"
    using False floor_log_eq_powr_iff [of "\<bar>x\<bar>" 2 k] by (simp add: k_def)
  have fx: "float64 x = of_int (round_half_even (x / u)) * u"
    using False by (simp add: float64_def Let_def k_def u_def)
  have "float64 x - x = (of_int (round_half_even (x / u)) - x / u) * u"
    using u by (simp add: fx left_diff_distrib)
  then have "\<bar>float64 x - x\<bar> = \<bar>of_int (round_half_even (x / u)) - x / u\<bar> * u"
    using u by (simp add: abs_mult)
  also have "\<dots> \<le> 1 / 2 * u"
    using round_half_even_error [of "x / u"] u by (intro mult_right_mono) simp_all
  also have "\<dots> = 2 powr of_int k / 2 ^ 53"
    by (simp add: u_def powr_diff)
  also have "\<dots> \<le> \<bar>x\<bar> / 2 ^ 53"
    using lo by (simp add: divide_right_mono)
  finally show ?thesis .
qed






section \<open>Properties of DescriptiveStats\<close>

text \<open>
  With a non-zero divisor the variance is the sum of squares divided once and rounded
  once; and a rounded quotient, multiplied back exactly, misses the dividend by at most
  its 2^53th part.
\<close>

lemma np_var_finite:
  assumes "ddof < length xs"
  shows "np_var np xs ddof
           = Finite (float64 (sum_squared_deviations np xs / real (length xs - ddof)))"
  using assms by (simp add: np_var_def float64_truediv_def)

lemma rounded_quotient_times_divisor:
  fixes s c :: real
  assumes "0 < c"
  shows "\<bar>float64 (s / c) * c - s\<bar> \<le> \<bar>s\<bar> / 2 ^ 53"
proof -
  have "float64 (s / c) * c - s = (float64 (s / c) - s / c) * c"
    using assms by (simp add: left_diff_distrib)
  then have "\<bar>float64 (s / c) * c - s\<bar> = \<bar>float64 (s / c) - s / c\<bar> * c"
    using assms by (simp add: abs_mult)
  also have "\<dots> \<le> \<bar>s / c\<bar> / 2 ^ 53 * c"
    using float64_error [of "s / c"] assms by (intro mult_right_mono) simp_all
  also have "\<dots> = \<bar>s\<bar> / 2 ^ 53"
    using assms by simp
  finally show ?thesis .
qed

text \<open>
  C8, as the code has it. For every dataset D of at least two values and every order of
  summation, \<open>_calculate_dispersion\<close> returns a sample variance sv and a population
  variance pv that are the quotients of one and the same double, the sum S of the squared
  deviations as numpy computes it, by n - 1 and by n, each rounded once. So sv (n - 1)
  and pv n, taken exactly, each differ from S by at most its 2^53th part, and from one
  another by at most its 2^52th part; they are not equal in general.
\<close>

theorem sample_and_population_variance_round_one_sum:
  assumes "2 \<le> length D"
  shows "\<exists>r sv pv.
           calculate_dispersion np (DescriptiveStats_init D) = Inr r
         \<and> stat_value r ''sample_variance'' = Some sv
         \<and> stat_value r ''population_variance'' = Some pv
         \<and> sv = float64 (sum_squared_deviations np D / (real (length D) - 1))
         \<and> pv = float64 (sum_squared_deviations np D / real (length D))
         \<and> \<bar>sv * (real (length D) - 1) - sum_squared_deviations np D\<bar>
             \<le> \<bar>sum_squared_deviations np D\<bar> / 2 ^ 53
         \<and> \<bar>pv * real (length D) - sum_squared_deviations np D\<bar>
             \<le> \<bar>sum_squared_deviations np D\<bar> / 2 ^ 53
         \<and> \<bar>sv * (real (length D) - 1) - pv * real (length D)\<bar>
             \<le> \<bar>sum_squared_deviations np D\<bar> / 2 ^ 52"
proof -
  define s where "s = sum_squared_deviations np D"
  have ne: "D \<noteq> []"
    using assms by auto
  have l2: "real (length D - 1) = real (length D) - 1"
    using assms by auto
  have pos: "0 < real (length D) - 1" "0 < real (length D)"
    using assms by auto
  have v1: "np_var np D 1 = Finite (float64 (s / (real (length D) - 1)))"
    using assms np_var_finite [of 1 D np] by (simp add: l2 s_def)
  have v0: "np_var np D 0 = Finite (float64 (s / real (length D)))"
    using ne np_var_finite [of 0 D np] by (simp add: s_def)
  define r where "r = projr (calculate_dispersion np (DescriptiveStats_init D))"
  have ret: "calculate_dispersion np (DescriptiveStats_init D) = Inr r"
    unfolding r_def using ne
    by (simp add: calculate_dispersion_def DescriptiveStats_init_def Let_def np_max_def
          np_min_def)
  have sv: "stat_value r ''sample_variance'' = Some (float64 (s / (real (length D) - 1)))"
    unfolding r_def using ne v1
    by (simp add: calculate_dispersion_def DescriptiveStats_init_def Let_def np_max_def
          np_min_def stat_value_def)
  have pv: "stat_value r ''population_variance'' = Some (float64 (s / real (length D)))"
    unfolding r_def using ne v0
    by (simp add: calculate_dispersion_def DescriptiveStats_init_def Let_def np_max_def
          np_min_def stat_value_def)
  note e1 = rounded_quotient_times_divisor [OF pos(1), of s]
  note e2 = rounded_quotient_times_divisor [OF pos(2), of s]
  have half: "\<bar>s\<bar> / 2 ^ 53 + \<bar>s\<bar> / 2 ^ 53 = \<bar>s\<bar> / 2 ^ 52"
    by simp
  have e3: "\<bar>float64 (s / (real (length D) - 1)) * (real (length D) - 1)
              - float64 (s / real (length D)) * real (length D)\<bar> \<le> \<bar>s\<bar> / 2 ^ 52"
    using e1 e2 unfolding half [symmetric] by linarith
  show ?thesis
    unfolding s_def [symmetric]
    using ret sv pv e1 e2 e3 by (intro exI conjI) (assumption | rule refl)+
qed

text \<open>
  The roundings met on the data 1, 2, 3, 4. Every intermediate result is a double there
  but the sample variance 5/3.
\<close>

lemma roundings_1_2_3_4:
  shows "float64 1 = 1"
    and "float64 3 = 3"
    and "float64 6 = 6"
    and "float64 10 = 10"
    and "float64 (5 / 2) = 5 / 2"
    and "float64 (- (3 / 2)) = - (3 / 2)"
    and "float64 (- (1 / 2)) = - (1 / 2)"
    and "float64 (1 / 2) = 1 / 2"
    and "float64 (3 / 2) = 3 / 2"
    and "float64 (9 / 4) = 9 / 4"
    and "float64 (1 / 4) = 1 / 4"
    and "float64 (11 / 4) = 11 / 4"
    and "float64 5 = 5"
    and "float64 (5 / 3) = 7505999378950827 / 4503599627370496"
    and "float64 (5 / 4) = 5 / 4"
proof -
  show "float64 1 = 1"
    using float64_eval [of "0" "1" "4503599627370496"]
    by (simp add: powr_neg_numeral)
  show "float64 3 = 3"
    using float64_eval [of "1" "3" "6755399441055744"]
    by (simp add: powr_neg_numeral)
  show "float64 6 = 6"
    using float64_eval [of "2" "6" "6755399441055744"]
    by (simp add: powr_neg_numeral)
  show "float64 10 = 10"
    using float64_eval [of "3" "10" "5629499534213120"]
    by (simp add: powr_neg_numeral)
  show "float64 (5 / 2) = 5 / 2"
    using float64_eval [of "1" "5 / 2" "5629499534213120"]
    by (simp add: powr_neg_numeral)
  show "float64 (- (3 / 2)) = - (3 / 2)"
    using float64_eval [of "0" "- (3 / 2)" "- 6755399441055744"]
    by (simp add: powr_neg_numeral)
  show "float64 (- (1 / 2)) = - (1 / 2)"
    using float64_eval [of "- 1" "- (1 / 2)" "- 4503599627370496"]
    by (simp add: powr_neg_numeral)
  show "float64 (1 / 2) = 1 / 2"
    using float64_eval [of "- 1" "1 / 2" "4503599627370496"]
    by (simp add: powr_neg_numeral)
  show "float64 (3 / 2) = 3 / 2"
    using float64_eval [of "0" "3 / 2" "6755399441055744"]
    by (simp add: powr_neg_numeral)
  show "float64 (9 / 4) = 9 / 4"
    using float64_eval [of "1" "9 / 4" "5066549580791808"]
    by (simp add: powr_neg_numeral)
  show "float64 (1 / 4) = 1 / 4"
    using float64_eval [of "- 2" "1 / 4" "4503599627370496"]
    by (simp add: powr_neg_numeral)
  show "float64 (11 / 4) = 11 / 4"
    using float64_eval [of "1" "11 / 4" "6192449487634432"]
    by (simp add: powr_neg_numeral)
  show "float64 5 = 5"
    using float64_eval [of "2" "5" "5629499534213120"]
    by (simp add: powr_neg_numeral)
  show "float64 (5 / 3) = 7505999378950827 / 4503599627370496"
    using float64_eval [of "0" "5 / 3" "7505999378950827"]
    by (simp add: powr_neg_numeral)
  show "float64 (5 / 4) = 5 / 4"
    using float64_eval [of "0" "5 / 4" "5629499534213120"]
    by (simp add: powr_neg_numeral)
qed

text \<open>
  On 1, 2, 3, 4 with numpy's order the sum of the squared deviations is 5; the population
  variance is 5/4 and the sample variance is the double next to 5/3.
\<close>

theorem sample_and_population_variance_round_one_sum_witness:
  "2 \<le> length [1, 2, 3, 4 :: real]
   \<and> sum_squared_deviations numpy_sequential [1, 2, 3, 4] = 5
   \<and> stat_value (projr (calculate_dispersion numpy_sequential (DescriptiveStats_init [1, 2, 3, 4])))
        ''sample_variance'' = Some (7505999378950827 / 4503599627370496)
   \<and> stat_value (projr (calculate_dispersion numpy_sequential (DescriptiveStats_init [1, 2, 3, 4])))
        ''population_variance'' = Some (5 / 4)
   \<and> (\<exists>r sv pv.
           calculate_dispersion numpy_sequential (DescriptiveStats_init [1, 2, 3, 4]) = Inr r
         \<and> stat_value r ''sample_variance'' = Some sv
         \<and> stat_value r ''population_variance'' = Some pv
         \<and> sv = float64 (sum_squared_deviations numpy_sequential [1, 2, 3, 4]
                            / (real (length [1, 2, 3, 4 :: real]) - 1))
         \<and> pv = float64 (sum_squared_deviations numpy_sequential [1, 2, 3, 4]
                            / real (length [1, 2, 3, 4 :: real]))
         \<and> \<bar>sv * (real (length [1, 2, 3, 4 :: real]) - 1)
              - sum_squared_deviations numpy_sequential [1, 2, 3, 4]\<bar>
             \<le> \<bar>sum_squared_deviations numpy_sequential [1, 2, 3, 4]\<bar> / 2 ^ 53
         \<and> \<bar>pv * real (length [1, 2, 3, 4 :: real])
              - sum_squared_deviations numpy_sequential [1, 2, 3, 4]\<bar>
             \<le> \<bar>sum_squared_deviations numpy_sequential [1, 2, 3, 4]\<bar> / 2 ^ 53
         \<and> \<bar>sv * (real (length [1, 2, 3, 4 :: real]) - 1)
              - pv * real (length [1, 2, 3, 4 :: real])\<bar>
             \<le> \<bar>sum_squared_deviations numpy_sequential [1, 2, 3, 4]\<bar> / 2 ^ 52)"
proof -
  have s: "sum_squared_deviations numpy_sequential [1, 2, 3, 4] = 5"
    by (simp add: sum_squared_deviations_def numpy_sequential_def sequential_sum_def Let_def
          roundings_1_2_3_4)
  have v: "np_var numpy_sequential [1, 2, 3, 4] (Suc 0) = Finite (7505999378950827 / 4503599627370496)"
      "np_var numpy_sequential [1, 2, 3, 4] 0 = Finite (5 / 4)"
    by (simp_all add: np_var_def float64_truediv_def s roundings_1_2_3_4)
  have sv: "stat_value (projr (calculate_dispersion numpy_sequential
                                 (DescriptiveStats_init [1, 2, 3, 4])))
              ''sample_variance'' = Some (7505999378950827 / 4503599627370496)"
    by (simp add: calculate_dispersion_def DescriptiveStats_init_def Let_def np_max_def
          np_min_def stat_value_def v)
  have pv: "stat_value (projr (calculate_dispersion numpy_sequential
                                 (DescriptiveStats_init [1, 2, 3, 4])))
              ''population_variance'' = Some (5 / 4)"
    by (simp add: calculate_dispersion_def DescriptiveStats_init_def Let_def np_max_def
          np_min_def stat_value_def v)
  have len: "2 \<le> length [1, 2, 3, 4 :: real]"
    by simp
  show ?thesis
    using sample_and_population_variance_round_one_sum [OF len, of numpy_sequential] s sv pv len
    by (intro conjI) (assumption | rule refl)+
qed

text \<open>
  The roundings met on the data 3, 8, 5. The mean 16/3 is rounded, and with it the
  deviations carry an error that their squares and the sum keep.
\<close>

lemma roundings_3_8_5:
  shows "float64 3 = 3"
    and "float64 11 = 11"
    and "float64 16 = 16"
    and "float64 (16 / 3) = 6004799503160661 / 1125899906842624"
    and "float64 (- (2627099782632789 / 1125899906842624)) = - (2627099782632789 / 1125899906842624)"
    and "float64 (3002399751580331 / 1125899906842624) = 3002399751580331 / 1125899906842624"
    and "float64 (- (375299968947541 / 1125899906842624)) = - (375299968947541 / 1125899906842624)"
    and "float64 (6901653267909247212304417918521 / 1267650600228229401496703205376) = 383118718300615 / 70368744177664"
    and "float64 (9014404268289633301131946069561 / 1267650600228229401496703205376) = 4003199668773775 / 562949953421312"
    and "float64 (140850066692025238855209946681 / 1267650600228229401496703205376) = 4003199668773767 / 36028797018963968"
    and "float64 (383118718300615 / 70368744177664) = 383118718300615 / 70368744177664"
    and "float64 (7068149415178695 / 562949953421312) = 7068149415178695 / 562949953421312"
    and "float64 (456364762240210247 / 36028797018963968) = 7130699410003285 / 562949953421312"
    and "float64 (7130699410003285 / 1125899906842624) = 7130699410003285 / 1125899906842624"
    and "float64 (7130699410003285 / 1688849860263936) = 4753799606668857 / 1125899906842624"
    and "float64 5 = 5"
    and "float64 (7130699410003285 / 562949953421312) = 7130699410003285 / 562949953421312"
    and "float64 (14261398820006571 / 1125899906842624) = 3565349705001643 / 281474976710656"
proof -
  show "float64 3 = 3"
    using float64_eval [of "1" "3" "6755399441055744"]
    by (simp add: powr_neg_numeral)
  show "float64 11 = 11"
    using float64_eval [of "3" "11" "6192449487634432"]
    by (simp add: powr_neg_numeral)
  show "float64 16 = 16"
    using float64_eval [of "4" "16" "4503599627370496"]
    by (simp add: powr_neg_numeral)
  show "float64 (16 / 3) = 6004799503160661 / 1125899906842624"
    using float64_eval [of "2" "16 / 3" "6004799503160661"]
    by (simp add: powr_neg_numeral)
  show "float64 (- (2627099782632789 / 1125899906842624)) = - (2627099782632789 / 1125899906842624)"
    using float64_eval [of "1" "- (2627099782632789 / 1125899906842624)" "- 5254199565265578"]
    by (simp add: powr_neg_numeral)
  show "float64 (3002399751580331 / 1125899906842624) = 3002399751580331 / 1125899906842624"
    using float64_eval [of "1" "3002399751580331 / 1125899906842624" "6004799503160662"]
    by (simp add: powr_neg_numeral)
  show "float64 (- (375299968947541 / 1125899906842624)) = - (375299968947541 / 1125899906842624)"
    using float64_eval [of "- 2" "- (375299968947541 / 1125899906842624)" "- 6004799503160656"]
    by (simp add: powr_neg_numeral)
  show "float64 (6901653267909247212304417918521 / 1267650600228229401496703205376) = 383118718300615 / 70368744177664"
    using float64_eval [of "2" "6901653267909247212304417918521 / 1267650600228229401496703205376" "6129899492809840"]
    by (simp add: powr_neg_numeral)
  show "float64 (9014404268289633301131946069561 / 1267650600228229401496703205376) = 4003199668773775 / 562949953421312"
    using float64_eval [of "2" "9014404268289633301131946069561 / 1267650600228229401496703205376" "8006399337547550"]
    by (simp add: powr_neg_numeral)
  show "float64 (140850066692025238855209946681 / 1267650600228229401496703205376) = 4003199668773767 / 36028797018963968"
    using float64_eval [of "- 4" "140850066692025238855209946681 / 1267650600228229401496703205376" "8006399337547534"]
    by (simp add: powr_neg_numeral)
  show "float64 (383118718300615 / 70368744177664) = 383118718300615 / 70368744177664"
    using float64_eval [of "2" "383118718300615 / 70368744177664" "6129899492809840"]
    by (simp add: powr_neg_numeral)
  show "float64 (7068149415178695 / 562949953421312) = 7068149415178695 / 562949953421312"
    using float64_eval [of "3" "7068149415178695 / 562949953421312" "7068149415178695"]
    by (simp add: powr_neg_numeral)
  show "float64 (456364762240210247 / 36028797018963968) = 7130699410003285 / 562949953421312"
    using float64_eval [of "3" "456364762240210247 / 36028797018963968" "7130699410003285"]
    by (simp add: powr_neg_numeral)
  show "float64 (7130699410003285 / 1125899906842624) = 7130699410003285 / 1125899906842624"
    using float64_eval [of "2" "7130699410003285 / 1125899906842624" "7130699410003285"]
    by (simp add: powr_neg_numeral)
  show "float64 (7130699410003285 / 1688849860263936) = 4753799606668857 / 1125899906842624"
    using float64_eval [of "2" "7130699410003285 / 1688849860263936" "4753799606668857"]
    by (simp add: powr_neg_numeral)
  show "float64 5 = 5"
    using float64_eval [of "2" "5" "5629499534213120"]
    by (simp add: powr_neg_numeral)
  show "float64 (7130699410003285 / 562949953421312) = 7130699410003285 / 562949953421312"
    using float64_eval [of "3" "7130699410003285 / 562949953421312" "7130699410003285"]
    by (simp add: powr_neg_numeral)
  show "float64 (14261398820006571 / 1125899906842624) = 3565349705001643 / 281474976710656"
    by (subst float64_binade [where k = "3"])
      (simp_all add: round_half_even_def Let_def powr_neg_numeral)
qed

text \<open>
  C8 as stated fails. On 3, 8, 5 the sum of the squared deviations is computed as
  12.666666666666666, the sample variance as its half 6.333333333333333 and the
  population variance as 4.222222222222222, its third rounded. The product of the
  population variance and 3 is 12.666666666666668 as a double, and differs from the
  product of the sample variance and 2, which is 12.666666666666666, as doubles and as
  exact numbers.
\<close>

theorem sample_and_population_variance_counterexample:
  "calculate_dispersion numpy_sequential (DescriptiveStats_init [3, 8, 5])
   = Inr [(''sample_variance'',
             PyDict [(''value'', PyFloat (7130699410003285 / 1125899906842624)),
                     (''formula'', PyFmt []),
                     (''description'',
                        PyStr ''Sample variance (divides by n-1 for unbiased estimate)'')]),
          (''sample_std_dev'',
             PyDict [(''value'', PyFloat (float64 (sqrt (7130699410003285 / 1125899906842624)))),
                     (''formula'', PyFmt []),
                     (''description'',
                        PyStr ''Sample standard deviation (square root of sample variance)'')]),
          (''population_variance'',
             PyDict [(''value'', PyFloat (4753799606668857 / 1125899906842624)),
                     (''formula'', PyFmt []),
                     (''description'', PyStr ''Population variance (divides by n)'')]),
          (''population_std_dev'',
             PyDict [(''value'', PyFloat (float64 (sqrt (4753799606668857 / 1125899906842624)))),
                     (''formula'', PyFmt []),
                     (''description'',
                        PyStr ''Population standard deviation (square root of population variance)'')]),
          (''range'',
             PyDict [(''value'', PyFloat 5),
                     (''formula'', PyStr ''Range = Maximum - Minimum''),
                     (''description'',
                        PyStr ''The difference between the largest and smallest values'')])]
   \<and> sum_squared_deviations numpy_sequential [3, 8, 5] = 7130699410003285 / 562949953421312
   \<and> float64 (7130699410003285 / 1125899906842624 * 2) = 7130699410003285 / 562949953421312
   \<and> float64 (4753799606668857 / 1125899906842624 * 3) = 3565349705001643 / 281474976710656
   \<and> float64 (7130699410003285 / 1125899906842624 * 2) \<noteq> float64 (4753799606668857 / 1125899906842624 * 3)
   \<and> (7130699410003285 / 1125899906842624 * 2 :: real) \<noteq> 4753799606668857 / 1125899906842624 * 3"
proof -
  have s: "sum_squared_deviations numpy_sequential [3, 8, 5] = 7130699410003285 / 562949953421312"
    by (simp add: sum_squared_deviations_def numpy_sequential_def sequential_sum_def Let_def
          roundings_3_8_5)
  have v: "np_var numpy_sequential [3, 8, 5] (Suc 0) = Finite (7130699410003285 / 1125899906842624)"
      "np_var numpy_sequential [3, 8, 5] 0 = Finite (4753799606668857 / 1125899906842624)"
    by (simp_all add: np_var_def float64_truediv_def s roundings_3_8_5)
  have d: "calculate_dispersion numpy_sequential (DescriptiveStats_init [3, 8, 5])
   = Inr [(''sample_variance'',
             PyDict [(''value'', PyFloat (7130699410003285 / 1125899906842624)),
                     (''formula'', PyFmt []),
                     (''description'',
                        PyStr ''Sample variance (divides by n-1 for unbiased estimate)'')]),
          (''sample_std_dev'',
             PyDict [(''value'', PyFloat (float64 (sqrt (7130699410003285 / 1125899906842624)))),
                     (''formula'', PyFmt []),
                     (''description'',
                        PyStr ''Sample standard deviation (square root of sample variance)'')]),
          (''population_variance'',
             PyDict [(''value'', PyFloat (4753799606668857 / 1125899906842624)),
                     (''formula'', PyFmt []),
                     (''description'', PyStr ''Population variance (divides by n)'')]),
          (''population_std_dev'',
             PyDict [(''value'', PyFloat (float64 (sqrt (4753799606668857 / 1125899906842624)))),
                     (''formula'', PyFmt []),
                     (''description'',
                        PyStr ''Population standard deviation (square root of population variance)'')]),
          (''range'',
             PyDict [(''value'', PyFloat 5),
                     (''formula'', PyStr ''Range = Maximum - Minimum''),
                     (''description'',
                        PyStr ''The difference between the largest and smallest values'')])]"
    by (simp add: calculate_dispersion_def DescriptiveStats_init_def Let_def np_max_def
          np_min_def np_std_def v roundings_3_8_5)
  have p: "float64 (7130699410003285 / 1125899906842624 * 2) = 7130699410003285 / 562949953421312"
      "float64 (4753799606668857 / 1125899906842624 * 3) = 3565349705001643 / 281474976710656"
    by (simp_all add: roundings_3_8_5)
  show ?thesis
    unfolding p using d s by simp
qed

section \<open>Shared lemmas on failures, names and displays\<close>

lemmas ns_defs = load_fast_def load_global_def module_globals_def builtin_names_def

lemma and_then_Inr_iff:
  "and_then m f = Inr r \<longleftrightarrow> (\<exists>v. m = Inr v \<and> f v = Inr r)"
  by (cases m) (simp_all add: and_then_def)

lemma and_then_Inl_iff:
  "and_then m f = Inl e \<longleftrightarrow> m = Inl e \<or> (\<exists>v. m = Inr v \<and> f v = Inl e)"
  by (cases m) (simp_all add: and_then_def)



lemma truediv_Inl: "truediv a b = Inl e \<Longrightarrow> e = ZeroDivisionError"
  by (simp add: truediv_def split: if_splits)

lemma math_sqrt_Inl: "math_sqrt a = Inl e \<Longrightarrow> e = ValueError ''math domain error''"
  by (simp add: math_sqrt_def split: if_splits)



lemma sqrt_square_numeral: "0 \<le> x \<Longrightarrow> sqrt (x * x) = x"
  by simp

section \<open>Properties of the one-sample mean test\<close>

text \<open>
  Whatever the body bound, the display of \<open>one_sample_mean_test\<close> stops at the
  interpolation of \<open>null_proportion\<close>: the name is no local of the method, no global of
  the module and no builtin.
\<close>

lemma one_sample_mean_return_raises:
  "eval_display
     (one_sample_mean_namespace sample_mean sample_size null_mean alpha test_type
        population_std sample_std std_error test_stat distribution_type df critical_values p_value)
     one_sample_mean_return
   = Inl (NameError ''null_proportion'')"
  by (simp add: one_sample_mean_namespace_def one_sample_mean_return_def ns_defs)

lemma one_sample_mean_locals_z:
  assumes "0 < sample_size" and "sigma \<noteq> 0"
  shows "one_sample_mean_locals lib sample_mean sample_size null_mean alpha test_type
           (Some sigma) sample_std
         = Inr (one_sample_mean_namespace sample_mean sample_size null_mean alpha test_type
                  (Some sigma) sample_std
                  (sigma / sqrt (real_of_int sample_size))
                  ((sample_mean - null_mean) / (sigma / sqrt (real_of_int sample_size)))
                  ''z'' PyNone
                  (fst (critical_values_and_p_value (norm_cdf lib) (norm_ppf lib) alpha test_type
                          ((sample_mean - null_mean) / (sigma / sqrt (real_of_int sample_size)))))
                  (snd (critical_values_and_p_value (norm_cdf lib) (norm_ppf lib) alpha test_type
                          ((sample_mean - null_mean) / (sigma / sqrt (real_of_int sample_size))))))"
proof -
  have rt: "sqrt (real_of_int sample_size) \<noteq> 0" "\<not> real_of_int sample_size < 0"
    using assms by auto
  show ?thesis
    using rt assms(2)
    by (simp add: one_sample_mean_locals_def and_then_def math_sqrt_def truediv_def
          split: prod.splits)
qed

lemma one_sample_mean_locals_t:
  assumes "0 < sample_size" and "s \<noteq> 0"
  shows "one_sample_mean_locals lib sample_mean sample_size null_mean alpha test_type
           None (Some s)
         = Inr (one_sample_mean_namespace sample_mean sample_size null_mean alpha test_type
                  None (Some s)
                  (s / sqrt (real_of_int sample_size))
                  ((sample_mean - null_mean) / (s / sqrt (real_of_int sample_size)))
                  ''t'' (PyInt (sample_size - 1))
                  (fst (critical_values_and_p_value
                          (\<lambda>x. t_cdf lib x (real_of_int (sample_size - 1)))
                          (\<lambda>q. t_ppf lib q (real_of_int (sample_size - 1))) alpha test_type
                          ((sample_mean - null_mean) / (s / sqrt (real_of_int sample_size)))))
                  (snd (critical_values_and_p_value
                          (\<lambda>x. t_cdf lib x (real_of_int (sample_size - 1)))
                          (\<lambda>q. t_ppf lib q (real_of_int (sample_size - 1))) alpha test_type
                          ((sample_mean - null_mean) / (s / sqrt (real_of_int sample_size))))))"
proof -
  have rt: "sqrt (real_of_int sample_size) \<noteq> 0" "\<not> real_of_int sample_size < 0"
    using assms by auto
  show ?thesis
    using rt assms(2)
    by (simp add: one_sample_mean_locals_def and_then_def math_sqrt_def truediv_def Let_def
          split: prod.splits)
qed

text \<open>
  C1, what the code does. For a positive sample size the body of
  \<open>one_sample_mean_test\<close> computes what the claim says: with \<open>population_std\<close> a z-test
  with standard error \<open>population_std / sqrt n\<close>, otherwise with \<open>sample_std\<close> a t-test
  with \<open>df = n - 1\<close>, the statistic being (sample mean - null mean) / SE, and critical
  values, p-value and decision are bound. With neither the call raises the ValueError.
  But no result is returned: in both branches the call raises NameError for
  \<open>null_proportion\<close> while the result is built.
\<close>

theorem one_sample_mean_test_raises_NameError:
  assumes "0 < sample_size"
  shows "(sigma \<noteq> 0 \<longrightarrow>
            (\<exists>ns. one_sample_mean_locals lib sample_mean sample_size null_mean alpha test_type
                     (Some sigma) sample_std = Inr ns
               \<and> map_of ns ''distribution_type'' = Some (PyStr ''z'')
               \<and> map_of ns ''df'' = Some PyNone
               \<and> map_of ns ''std_error''
                    = Some (PyFloat (sigma / sqrt (real_of_int sample_size)))
               \<and> map_of ns ''test_stat''
                    = Some (PyFloat ((sample_mean - null_mean)
                                      / (sigma / sqrt (real_of_int sample_size))))
               \<and> map_of ns ''critical_values'' \<noteq> None
               \<and> map_of ns ''p_value'' \<noteq> None
               \<and> map_of ns ''reject_null'' \<noteq> None)
          \<and> one_sample_mean_test lib sample_mean sample_size null_mean alpha test_type
               (Some sigma) sample_std = Inl (NameError ''null_proportion''))
       \<and> (s \<noteq> 0 \<longrightarrow>
            (\<exists>ns. one_sample_mean_locals lib sample_mean sample_size null_mean alpha test_type
                     None (Some s) = Inr ns
               \<and> map_of ns ''distribution_type'' = Some (PyStr ''t'')
               \<and> map_of ns ''df'' = Some (PyInt (sample_size - 1))
               \<and> map_of ns ''std_error''
                    = Some (PyFloat (s / sqrt (real_of_int sample_size)))
               \<and> map_of ns ''test_stat''
                    = Some (PyFloat ((sample_mean - null_mean)
                                      / (s / sqrt (real_of_int sample_size))))
               \<and> map_of ns ''critical_values'' \<noteq> None
               \<and> map_of ns ''p_value'' \<noteq> None
               \<and> map_of ns ''reject_null'' \<noteq> None)
          \<and> one_sample_mean_test lib sample_mean sample_size null_mean alpha test_type
               None (Some s) = Inl (NameError ''null_proportion''))
       \<and> one_sample_mean_test lib sample_mean sample_size null_mean alpha test_type None None
           = Inl (ValueError ''Either population_std or sample_std must be provided'')"
proof (intro conjI impI)
  assume sg: "sigma \<noteq> 0"
  note z = one_sample_mean_locals_z
    [OF assms sg, of lib sample_mean null_mean alpha test_type sample_std]
  show "\<exists>ns. one_sample_mean_locals lib sample_mean sample_size null_mean alpha test_type
                (Some sigma) sample_std = Inr ns
          \<and> map_of ns ''distribution_type'' = Some (PyStr ''z'')
          \<and> map_of ns ''df'' = Some PyNone
          \<and> map_of ns ''std_error'' = Some (PyFloat (sigma / sqrt (real_of_int sample_size)))
          \<and> map_of ns ''test_stat''
               = Some (PyFloat ((sample_mean - null_mean)
                                 / (sigma / sqrt (real_of_int sample_size))))
          \<and> map_of ns ''critical_values'' \<noteq> None
          \<and> map_of ns ''p_value'' \<noteq> None
          \<and> map_of ns ''reject_null'' \<noteq> None"
    unfolding z by (simp add: one_sample_mean_namespace_def)
  show "one_sample_mean_test lib sample_mean sample_size null_mean alpha test_type
          (Some sigma) sample_std = Inl (NameError ''null_proportion'')"
    unfolding one_sample_mean_test_def z
    by (simp add: and_then_def one_sample_mean_return_raises)
next
  assume sg: "s \<noteq> 0"
  note t = one_sample_mean_locals_t [OF assms sg, of lib sample_mean null_mean alpha test_type]
  show "\<exists>ns. one_sample_mean_locals lib sample_mean sample_size null_mean alpha test_type
                None (Some s) = Inr ns
          \<and> map_of ns ''distribution_type'' = Some (PyStr ''t'')
          \<and> map_of ns ''df'' = Some (PyInt (sample_size - 1))
          \<and> map_of ns ''std_error'' = Some (PyFloat (s / sqrt (real_of_int sample_size)))
          \<and> map_of ns ''test_stat''
               = Some (PyFloat ((sample_mean - null_mean)
                                 / (s / sqrt (real_of_int sample_size))))
          \<and> map_of ns ''critical_values'' \<noteq> None
          \<and> map_of ns ''p_value'' \<noteq> None
          \<and> map_of ns ''reject_null'' \<noteq> None"
    unfolding t by (simp add: one_sample_mean_namespace_def)
  show "one_sample_mean_test lib sample_mean sample_size null_mean alpha test_type
          None (Some s) = Inl (NameError ''null_proportion'')"
    unfolding one_sample_mean_test_def t
    by (simp add: and_then_def one_sample_mean_return_raises)
next
  show "one_sample_mean_test lib sample_mean sample_size null_mean alpha test_type None None
          = Inl (ValueError ''Either population_std or sample_std must be provided'')"
    by (simp add: one_sample_mean_test_def one_sample_mean_locals_def and_then_def)
qed

text \<open>
  The spec's scenario: sample mean 105, n = 36, null mean 100, population standard
  deviation 15, alpha 0.05, two-tailed. The body finds SE = 2.5 and z = 2; the call
  raises NameError.
\<close>

theorem one_sample_mean_test_raises_NameError_witness:
  "(0::int) < 36 \<and> (15::real) \<noteq> 0
   \<and> map_of (projr (one_sample_mean_locals sigmoid_lib 105 36 100 (1 / 20) ''two-tailed''
                      (Some 15) None)) ''std_error'' = Some (PyFloat (5 / 2))
   \<and> map_of (projr (one_sample_mean_locals sigmoid_lib 105 36 100 (1 / 20) ''two-tailed''
                      (Some 15) None)) ''test_stat'' = Some (PyFloat 2)
   \<and> one_sample_mean_test sigmoid_lib 105 36 100 (1 / 20) ''two-tailed'' (Some 15) None
       = Inl (NameError ''null_proportion'')
   \<and> one_sample_mean_test sigmoid_lib 105 36 100 (1 / 20) ''two-tailed'' None (Some 15)
       = Inl (NameError ''null_proportion'')"
proof -
  have sq: "sqrt 36 = 6"
    using sqrt_square_numeral [of 6] by simp
  show ?thesis
    using one_sample_mean_test_raises_NameError
      [of 36 15 sigmoid_lib 105 100 "1 / 20" "''two-tailed''" None 15]
    by (auto simp: sq)
qed

section \<open>Properties of the two-sample mean test\<close>

text \<open>
  Welch's branch returns a namespace on which the display evaluates: the conditional
  expression of \<open>pooled_variance\<close> tests \<open>equal_variances\<close> first and takes its
  \<open>else\<close> arm, so the unbound \<open>pooled_var\<close> is never read.
\<close>

lemma welch_display:
  assumes "two_sample_mean_locals lib m1 n1 s1 m2 n2 s2 alpha test_type False = Inr ns"
  shows "\<exists>r. eval_display ns two_sample_mean_return = Inr r
           \<and> map_of r ''pooled_variance'' = Some PyNone
           \<and> map_of r ''equal_variances'' = Some (PyBool False)"
  using assms
  unfolding two_sample_mean_locals_def
  apply (simp add: and_then_Inr_iff case_prod_beta Let_def)
  apply (elim exE conjE)
  apply (auto simp: two_sample_mean_return_def ns_defs)
  done

lemma welch_error:
  assumes "two_sample_mean_locals lib m1 n1 s1 m2 n2 s2 alpha test_type False = Inl e"
  shows "e = ZeroDivisionError \<or> e = ValueError ''math domain error''"
  using assms
  unfolding two_sample_mean_locals_def
  by (auto simp: and_then_Inl_iff case_prod_beta Let_def dest: truediv_Inl math_sqrt_Inl)

lemma welch_returns:
  assumes "2 \<le> n1" and "2 \<le> n2" and "s1 \<noteq> 0 \<or> s2 \<noteq> 0"
  shows "\<exists>ns. two_sample_mean_locals lib m1 n1 s1 m2 n2 s2 alpha test_type False = Inr ns"
proof -
  define v1 where "v1 = s1\<^sup>2 / real_of_int n1"
  define v2 where "v2 = s2\<^sup>2 / real_of_int n2"
  have nz: "real_of_int n1 \<noteq> 0" "real_of_int n2 \<noteq> 0"
      "real_of_int n1 - 1 \<noteq> 0" "real_of_int n2 - 1 \<noteq> 0"
    using assms(1,2) by auto
  have v: "0 \<le> v1" "0 \<le> v2"
    unfolding v1_def v2_def using assms(1,2) by simp_all
  have one: "0 < v1 \<or> 0 < v2"
    unfolding v1_def v2_def using assms by (auto simp: zero_less_divide_iff)
  then have s: "0 < v1 + v2"
    using v by linarith
  have d: "0 \<le> v1\<^sup>2 / (real_of_int n1 - 1)" "0 \<le> v2\<^sup>2 / (real_of_int n2 - 1)"
    using assms(1,2) by simp_all
  have "0 < v1\<^sup>2 / (real_of_int n1 - 1) \<or> 0 < v2\<^sup>2 / (real_of_int n2 - 1)"
    using one assms(1,2) by (auto simp: zero_less_divide_iff)
  then have dd: "v1\<^sup>2 / (real_of_int n1 - 1) + v2\<^sup>2 / (real_of_int n2 - 1) \<noteq> 0"
    using d by linarith
  have sq: "sqrt (v1 + v2) \<noteq> 0" "\<not> v1 + v2 < 0"
    using s by simp_all
  show ?thesis
    using nz sq dd
    by (simp add: two_sample_mean_locals_def and_then_def truediv_def math_sqrt_def
          case_prod_beta Let_def v1_def v2_def)
qed

text \<open>
  C2, as the code has it. A call of \<open>two_sample_mean_test\<close> with
  \<open>equal_variances = False\<close> never fails with an undefined-variable error, whatever its
  other arguments are; and with both sample sizes at least 2 and the two sample standard
  deviations not both zero it returns a result, whose \<open>pooled_variance\<close> is None.
\<close>

theorem two_sample_mean_test_welch_returns:
  "(\<forall>x. two_sample_mean_test lib m1 n1 s1 m2 n2 s2 alpha test_type False
            \<noteq> Inl (UnboundLocalError x)
        \<and> two_sample_mean_test lib m1 n1 s1 m2 n2 s2 alpha test_type False
            \<noteq> Inl (NameError x))
   \<and> (2 \<le> n1 \<and> 2 \<le> n2 \<and> (s1 \<noteq> 0 \<or> s2 \<noteq> 0) \<longrightarrow>
        (\<exists>r. two_sample_mean_test lib m1 n1 s1 m2 n2 s2 alpha test_type False = Inr r
           \<and> map_of r ''pooled_variance'' = Some PyNone
           \<and> map_of r ''equal_variances'' = Some (PyBool False)))"
proof (intro conjI allI impI)
  fix x
  show "two_sample_mean_test lib m1 n1 s1 m2 n2 s2 alpha test_type False
          \<noteq> Inl (UnboundLocalError x)"
  proof (cases "two_sample_mean_locals lib m1 n1 s1 m2 n2 s2 alpha test_type False")
    case (Inl e)
    then show ?thesis
      using welch_error [OF Inl] by (auto simp: two_sample_mean_test_def and_then_def)
  next
    case (Inr ns)
    then show ?thesis
      using welch_display [OF Inr] by (auto simp: two_sample_mean_test_def and_then_def)
  qed
  show "two_sample_mean_test lib m1 n1 s1 m2 n2 s2 alpha test_type False \<noteq> Inl (NameError x)"
  proof (cases "two_sample_mean_locals lib m1 n1 s1 m2 n2 s2 alpha test_type False")
    case (Inl e)
    then show ?thesis
      using welch_error [OF Inl] by (auto simp: two_sample_mean_test_def and_then_def)
  next
    case (Inr ns)
    then show ?thesis
      using welch_display [OF Inr] by (auto simp: two_sample_mean_test_def and_then_def)
  qed
next
  assume a: "2 \<le> n1 \<and> 2 \<le> n2 \<and> (s1 \<noteq> 0 \<or> s2 \<noteq> 0)"
  then obtain ns
    where ns: "two_sample_mean_locals lib m1 n1 s1 m2 n2 s2 alpha test_type False = Inr ns"
    using welch_returns [of n1 n2 s1 s2 lib m1 m2 alpha test_type] by blast
  show "\<exists>r. two_sample_mean_test lib m1 n1 s1 m2 n2 s2 alpha test_type False = Inr r
           \<and> map_of r ''pooled_variance'' = Some PyNone
           \<and> map_of r ''equal_variances'' = Some (PyBool False)"
    using welch_display [OF ns] ns by (simp add: two_sample_mean_test_def and_then_def)
qed

theorem two_sample_mean_test_welch_returns_witness:
  "(2::int) \<le> 5 \<and> (2::int) \<le> 7 \<and> (4::real) \<noteq> 0
   \<and> (\<exists>r. two_sample_mean_test sigmoid_lib 52 5 4 49 7 6 (1 / 100) ''right-tailed'' False = Inr r
         \<and> map_of r ''pooled_variance'' = Some PyNone
         \<and> map_of r ''equal_variances'' = Some (PyBool False))"
  using two_sample_mean_test_welch_returns
    [of sigmoid_lib 52 5 4 49 7 6 "1 / 100" "''right-tailed''"]
  by simp

text \<open>
  C2 as stated fails. Welch's test on means 10 and 7, sizes 2 and 2, standard deviations
  3 and 3 at alpha 0.05, two-tailed, returns a result: standard error 3, 2 degrees of
  freedom, statistic 1, and \<open>pooled_variance\<close> None.
\<close>

theorem two_sample_mean_test_welch_counterexample:
  "two_sample_mean_test sigmoid_lib 10 2 3 7 2 3 (1 / 20) ''two-tailed'' False
   = Inr [(''test_statistic'', PyFloat 1),
          (''critical_values'', PyList [PyFloat (- 19), PyFloat 19]),
          (''p_value'', PyFloat (1 / 2)),
          (''alpha'', PyFloat (1 / 20)),
          (''reject_null'', PyBool False),
          (''degrees_of_freedom'', PyFloat 2),
          (''standard_error'', PyFloat 3),
          (''test_type'', PyStr ''two-tailed''),
          (''equal_variances'', PyBool False),
          (''null_hypothesis'', PyFmt []),
          (''alternative_hypothesis'', PyFmt []),
          (''pooled_variance'', PyNone),
          (''formula'', PyFmt []),
          (''steps'', PyList []),
          (''conclusion'', PyFmt [PyStr ''Fail to reject'', PyFloat (1 / 20)]),
          (''interpretation'', PyFmt [PyStr ''is not'']),
          (''description'', PyFmt [PyStr ''unequal''])]"
proof -
  have sq: "sqrt 9 = 3"
    using sqrt_square_numeral [of 3] by simp
  show ?thesis
    by (simp add: two_sample_mean_test_def two_sample_mean_locals_def and_then_def truediv_def
          math_sqrt_def sq critical_values_and_p_value_def decision_def sigmoid_lib_def
          sigmoid_cdf_def sigmoid_ppf_def two_sample_mean_return_def ns_defs power2_eq_square)
qed

section \<open>Properties of the one-sample proportion test\<close>

text \<open>
  C5, what the code does. For a positive sample size and a null proportion strictly
  between 0 and 1 the body of \<open>one_sample_proportion_test\<close> computes what the claim
  says: the standard error is sqrt (p0 (1 - p0) / n), from the null proportion; the
  statistic is (sample proportion - p0) / SE; and \<open>warning\<close> is bound to a value other
  than None exactly when n p0 < 5 or n (1 - p0) < 5. The entries of the display that the
  file has carry the statistic and the standard error into the result, but none of them
  is \<open>warning\<close>, and the display is not closed.
\<close>

theorem one_sample_proportion_test_computation:
  assumes "0 < sample_size" and "0 < p0" and "p0 < 1"
  shows "\<exists>ns w r.
           one_sample_proportion_locals lib p_hat sample_size p0 alpha test_type = Inr ns
         \<and> map_of ns ''std_error''
              = Some (PyFloat (sqrt (p0 * (1 - p0) / real_of_int sample_size)))
         \<and> map_of ns ''z_stat''
              = Some (PyFloat ((p_hat - p0) / sqrt (p0 * (1 - p0) / real_of_int sample_size)))
         \<and> map_of ns ''warning'' = Some w
         \<and> (w \<noteq> PyNone \<longleftrightarrow>
               real_of_int sample_size * p0 < 5 \<or> real_of_int sample_size * (1 - p0) < 5)
         \<and> eval_display ns one_sample_proportion_return = Inr r
         \<and> map_of r ''test_statistic'' = map_of ns ''z_stat''
         \<and> map_of r ''standard_error'' = map_of ns ''std_error''
         \<and> map_of r ''warning'' = None"
proof -
  have pos: "0 < p0 * (1 - p0) / real_of_int sample_size"
    using assms by simp
  have nz: "sqrt (p0 * (1 - p0) / real_of_int sample_size) \<noteq> 0"
    using assms by simp
  have nn: "\<not> p0 * (1 - p0) / real_of_int sample_size < 0"
    using pos by linarith
  have sz: "real_of_int sample_size \<noteq> 0"
    using assms by simp
  show ?thesis
    using nz nn sz
    by (simp add: one_sample_proportion_locals_def Let_def and_then_def truediv_def
          math_sqrt_def case_prod_beta one_sample_proportion_return_def ns_defs)
qed

text \<open>
  Sample proportion 0.6, n = 100, null proportion 0.5: SE = 0.05, z = 2, no warning.
  With n = 4 instead: SE = 0.25 and a warning, as n p0 = 2.
\<close>

theorem one_sample_proportion_test_computation_witness:
  "(0::int) < 100 \<and> (0::real) < 1 / 2 \<and> (1::real) / 2 < 1
   \<and> map_of (projr (one_sample_proportion_locals sigmoid_lib (3 / 5) 100 (1 / 2) (1 / 20)
                      ''two-tailed'')) ''std_error'' = Some (PyFloat (1 / 20))
   \<and> map_of (projr (one_sample_proportion_locals sigmoid_lib (3 / 5) 100 (1 / 2) (1 / 20)
                      ''two-tailed'')) ''z_stat'' = Some (PyFloat 2)
   \<and> map_of (projr (one_sample_proportion_locals sigmoid_lib (3 / 5) 100 (1 / 2) (1 / 20)
                      ''two-tailed'')) ''warning'' = Some PyNone
   \<and> map_of (projr (one_sample_proportion_locals sigmoid_lib (3 / 5) 4 (1 / 2) (1 / 20)
                      ''two-tailed'')) ''warning'' \<noteq> Some PyNone"
proof -
  have sq: "sqrt (1 / 400) = 1 / 20" "sqrt (1 / 16) = 1 / 4"
    using sqrt_square_numeral [of "1 / 20"] sqrt_square_numeral [of "1 / 4"] by simp_all
  show ?thesis
    using one_sample_proportion_test_computation
      [of 100 "1 / 2" sigmoid_lib "3 / 5" "1 / 20" "''two-tailed''"]
    one_sample_proportion_test_computation
      [of 4 "1 / 2" sigmoid_lib "3 / 5" "1 / 20" "''two-tailed''"]
    by (auto simp: sq)
qed

section \<open>Which standard deviation is used when both are given\<close>

text \<open>
  C10, what the code does. With both standard deviations given and a positive sample
  size, \<open>mean_confidence_interval\<close> returns what it returns without \<open>sample_std\<close>: a
  z-based result with standard error \<open>population_std / sqrt n\<close>; with \<open>sample_std\<close>
  alone it returns the t-based result, and with neither it raises the ValueError. The body of \<open>one_sample_mean_test\<close> takes the z-branch in the same way,
  but the call raises NameError where the result is built, as it does for every pair of
  standard deviations.
\<close>

theorem population_std_takes_precedence:
  assumes "0 < sample_size"
  shows "mean_confidence_interval lib sample_mean sample_size confidence_level
             (Some sigma) (Some s)
           = mean_confidence_interval lib sample_mean sample_size confidence_level
               (Some sigma) None
       \<and> (\<exists>r. mean_confidence_interval lib sample_mean sample_size confidence_level
                  (Some sigma) (Some s) = Inr r
             \<and> map_of r ''distribution_type'' = Some (PyStr ''z'')
             \<and> map_of r ''degrees_of_freedom'' = Some PyNone
             \<and> map_of r ''critical_value''
                  = Some (PyFloat (norm_ppf lib (1 - (1 - confidence_level) / 2)))
             \<and> map_of r ''standard_error''
                  = Some (PyFloat (sigma / sqrt (real_of_int sample_size))))
       \<and> (\<exists>r. mean_confidence_interval lib sample_mean sample_size confidence_level
                  None (Some s) = Inr r
             \<and> map_of r ''distribution_type'' = Some (PyStr ''t'')
             \<and> map_of r ''degrees_of_freedom'' = Some (PyInt (sample_size - 1))
             \<and> map_of r ''standard_error''
                  = Some (PyFloat (s / sqrt (real_of_int sample_size))))
       \<and> mean_confidence_interval lib sample_mean sample_size confidence_level None None
           = Inl (ValueError ''Either population_std or sample_std must be provided'')
       \<and> (sigma \<noteq> 0 \<longrightarrow>
            (\<exists>ns. one_sample_mean_locals lib sample_mean sample_size null_mean alpha test_type
                     (Some sigma) (Some s) = Inr ns
               \<and> map_of ns ''distribution_type'' = Some (PyStr ''z'')
               \<and> map_of ns ''df'' = Some PyNone
               \<and> map_of ns ''std_error''
                    = Some (PyFloat (sigma / sqrt (real_of_int sample_size))))
          \<and> one_sample_mean_test lib sample_mean sample_size null_mean alpha test_type
               (Some sigma) (Some s) = Inl (NameError ''null_proportion''))"
proof (intro conjI impI)
  have rt: "sqrt (real_of_int sample_size) \<noteq> 0" "\<not> real_of_int sample_size < 0"
    using assms by auto
  show "mean_confidence_interval lib sample_mean sample_size confidence_level
             (Some sigma) (Some s)
           = mean_confidence_interval lib sample_mean sample_size confidence_level
               (Some sigma) None"
    by (simp add: mean_confidence_interval_def)
  show "\<exists>r. mean_confidence_interval lib sample_mean sample_size confidence_level
                  (Some sigma) (Some s) = Inr r
             \<and> map_of r ''distribution_type'' = Some (PyStr ''z'')
             \<and> map_of r ''degrees_of_freedom'' = Some PyNone
             \<and> map_of r ''critical_value''
                  = Some (PyFloat (norm_ppf lib (1 - (1 - confidence_level) / 2)))
             \<and> map_of r ''standard_error''
                  = Some (PyFloat (sigma / sqrt (real_of_int sample_size)))"
    using rt
    by (simp add: mean_confidence_interval_def Let_def math_sqrt_def truediv_def
          mean_confidence_interval_result_def)
  show "\<exists>r. mean_confidence_interval lib sample_mean sample_size confidence_level
                  None (Some s) = Inr r
             \<and> map_of r ''distribution_type'' = Some (PyStr ''t'')
             \<and> map_of r ''degrees_of_freedom'' = Some (PyInt (sample_size - 1))
             \<and> map_of r ''standard_error''
                  = Some (PyFloat (s / sqrt (real_of_int sample_size)))"
    using rt
    by (simp add: mean_confidence_interval_def Let_def math_sqrt_def truediv_def
          mean_confidence_interval_result_def)
  show "mean_confidence_interval lib sample_mean sample_size confidence_level None None
           = Inl (ValueError ''Either population_std or sample_std must be provided'')"
    by (simp add: mean_confidence_interval_def Let_def)
next
  assume sg: "sigma \<noteq> 0"
  note z = one_sample_mean_locals_z
    [OF assms sg, of lib sample_mean null_mean alpha test_type "Some s"]
  show "\<exists>ns. one_sample_mean_locals lib sample_mean sample_size null_mean alpha test_type
                     (Some sigma) (Some s) = Inr ns
               \<and> map_of ns ''distribution_type'' = Some (PyStr ''z'')
               \<and> map_of ns ''df'' = Some PyNone
               \<and> map_of ns ''std_error''
                    = Some (PyFloat (sigma / sqrt (real_of_int sample_size)))"
    unfolding z by (simp add: one_sample_mean_namespace_def)
  show "one_sample_mean_test lib sample_mean sample_size null_mean alpha test_type
               (Some sigma) (Some s) = Inl (NameError ''null_proportion'')"
    unfolding one_sample_mean_test_def z
    by (simp add: and_then_def one_sample_mean_return_raises)
qed

text \<open>
  Sample mean 50, n = 25, level 0.95, population standard deviation 10 and sample
  standard deviation 12: the interval is the z-interval with SE = 2; the test on the same
  data against the null mean 48 raises NameError.
\<close>

theorem population_std_takes_precedence_witness:
  "(0::int) < 25 \<and> (10::real) \<noteq> 0
   \<and> map_of (projr (mean_confidence_interval sigmoid_lib 50 25 (19 / 20) (Some 10) (Some 12)))
        ''standard_error'' = Some (PyFloat 2)
   \<and> map_of (projr (mean_confidence_interval sigmoid_lib 50 25 (19 / 20) (Some 10) (Some 12)))
        ''distribution_type'' = Some (PyStr ''z'')
   \<and> map_of (projr (mean_confidence_interval sigmoid_lib 50 25 (19 / 20) (Some 10) (Some 12)))
        ''confidence_interval'' = Some (PyList [PyFloat 12, PyFloat 88])
   \<and> one_sample_mean_test sigmoid_lib 50 25 48 (1 / 20) ''two-tailed'' (Some 10) (Some 12)
       = Inl (NameError ''null_proportion'')"
proof -
  have sq: "sqrt 25 = 5"
    using sqrt_square_numeral [of 5] by simp
  show ?thesis
    using population_std_takes_precedence
      [of 25 sigmoid_lib 50 "19 / 20" 10 12 48 "1 / 20" "''two-tailed''"]
    by (auto simp: sq mean_confidence_interval_def Let_def math_sqrt_def truediv_def
          mean_confidence_interval_result_def sigmoid_lib_def sigmoid_ppf_def)
qed

section \<open>The two decisions of a two-tailed test\<close>

text \<open>
  For an exact distribution and a level in (0, 1) the critical value of the two-tailed
  test is positive, and the statistic exceeds it in absolute value exactly when the
  doubled tail probability is below the level. A CDF on doubles is not strictly
  increasing, so this does not speak of a library of doubles.
\<close>

lemma two_tailed_decision_iff:
  assumes "exact_distribution cdf ppf" and "0 < alpha" and "alpha < 1"
  shows "decision ''two-tailed'' stat
           (fst (critical_values_and_p_value cdf ppf alpha ''two-tailed'' stat))
         = (snd (critical_values_and_p_value cdf ppf alpha ''two-tailed'' stat) < alpha)"
proof -
  define q where "q = 1 - alpha / 2"
  have q: "1 / 2 < q" "0 < q" "q < 1"
    using assms(2,3) by (simp_all add: q_def)
  have mono: "strict_mono cdf" and inv: "cdf (ppf q) = q"
    using assms(1) q by (simp_all add: exact_distribution_def)
  have pos: "0 < ppf q"
    using assms(1) q(1,3) by (rule exact_upper_quantile_pos)
  have "\<bar>stat\<bar> > ppf q \<longleftrightarrow> cdf \<bar>stat\<bar> > cdf (ppf q)"
    using mono by (simp add: strict_mono_less)
  also have "\<dots> \<longleftrightarrow> 2 * (1 - cdf \<bar>stat\<bar>) < alpha"
    by (simp only: inv) (auto simp: q_def)
  finally show ?thesis
    using pos by (simp add: decision_def critical_values_and_p_value_def q_def)
qed










end
